theory Spec2Isabelle
  imports Complex_Main "HOL-Library.Word" "HOL-Library.List_Lexorder" "HOL-Library.Product_Lexorder"
    "HOL-Library.Multiset"
begin

section \<open>JavaScript strings and values\<close>

text \<open>
  A JavaScript string is a sequence of 16-bit code units. Program literals that are plain
  ASCII are written with \<open>lit\<close>; the user-facing messages of the modal, which are not
  ASCII, are given by their code units.
\<close>

type_synonym jschar = "16 word"
type_synonym jsstring = "jschar list"

definition lit :: "string \<Rightarrow> jsstring" where
  "lit s = map (\<lambda>c. of_nat (of_char c)) s"

text \<open>
  The characters matched by \<open>\s\<close> in a regular expression and removed by
  \<open>String.prototype.trim\<close>: ECMAScript's WhiteSpace and LineTerminator code points
  (TAB, LF, VT, FF, CR, SP, NBSP, U+1680, U+2000..U+200A, U+2028, U+2029, U+202F, U+205F,
  U+3000, U+FEFF).
\<close>

definition isWhiteSpace :: "jschar \<Rightarrow> bool" where
  "isWhiteSpace c =
     (c = 0x09 \<or> c = 0x0A \<or> c = 0x0B \<or> c = 0x0C \<or> c = 0x0D \<or> c = 0x20 \<or> c = 0xA0 \<or>
      c = 0x1680 \<or> (0x2000 \<le> c \<and> c \<le> 0x200A) \<or> c = 0x2028 \<or> c = 0x2029 \<or>
      c = 0x202F \<or> c = 0x205F \<or> c = 0x3000 \<or> c = 0xFEFF)"

definition trim :: "jsstring \<Rightarrow> jsstring" where
  "trim s = rev (dropWhile isWhiteSpace (rev (dropWhile isWhiteSpace s)))"

text \<open>
  Firestore's \<open>Timestamp\<close> class (seconds and nanoseconds since the epoch) and the values
  a field of \<open>RecordData\<close> can hold. Numbers are modelled by integers (every number the
  claims speak of is a year, a month or a page size). \<open>ServerTimestamp\<close> is the
  \<open>FieldValue\<close> sentinel returned by \<open>serverTimestamp()\<close>.
\<close>

datatype timestamp = Timestamp (seconds: int) (nanoseconds: int)

datatype fvalue =
    Null
  | Num int
  | Str jsstring
  | TimestampV (timestamp_of: timestamp)
  | ServerTimestamp
  | Arr "jsstring list"

text \<open>
  An object such as \<open>Partial<RecordData>\<close> or a stored document: a finite map from field
  names to values; an absent key reads as \<open>undefined\<close>.
\<close>

type_synonym document = "string \<rightharpoonup> fvalue"

text \<open>JavaScript truthiness of a property read (\<open>None\<close> is \<open>undefined\<close>).\<close>

fun truthy :: "fvalue option \<Rightarrow> bool" where
  "truthy None = False"
| "truthy (Some Null) = False"
| "truthy (Some (Num n)) = (n \<noteq> 0)"
| "truthy (Some (Str s)) = (s \<noteq> [])"
| "truthy (Some (TimestampV t)) = True"
| "truthy (Some ServerTimestamp) = True"
| "truthy (Some (Arr xs)) = True"

text \<open>\<open>v instanceof Timestamp\<close>.\<close>

fun instanceofTimestamp :: "fvalue \<Rightarrow> bool" where
  "instanceofTimestamp (TimestampV t) = True"
| "instanceofTimestamp v = False"

datatype js_exn = Error jsstring | NonError

section \<open>Dates\<close>

text \<open>
  \<open>Timestamp.toDate()\<close> is \<open>new Date(seconds * 1000 + nanoseconds / 1e6)\<close>; the
  \<open>Date\<close> constructor truncates the time value towards zero. A \<open>Date\<close> is its time
  value: milliseconds since the epoch, UTC.
\<close>

type_synonym date = int

definition toDate :: "timestamp \<Rightarrow> date" where
  "toDate ts =
     (let n = seconds ts * 1000000000 + nanoseconds ts
      in if 0 \<le> n then n div 1000000 else - ((- n) div 1000000))"

text \<open>
  \<open>getFullYear\<close> and \<open>getMonth\<close> follow ECMAScript: the local time is the time value
  plus the local time zone adjustment (a property of the host, here the parameter
  \<open>tza\<close>), \<open>Day\<close> is the day number, \<open>YearFromTime\<close> the proleptic Gregorian year of
  that day and \<open>MonthFromTime\<close> the month index 0..11 read off the day within the year.
\<close>

definition msPerDay :: int where
  "msPerDay = 86400000"

definition Day :: "int \<Rightarrow> int" where
  "Day t = t div msPerDay"

definition DaysInYear :: "int \<Rightarrow> int" where
  "DaysInYear y =
     (if y mod 4 \<noteq> 0 then 365 else if y mod 100 \<noteq> 0 then 366
      else if y mod 400 \<noteq> 0 then 365 else 366)"

definition DayFromYear :: "int \<Rightarrow> int" where
  "DayFromYear y = 365 * (y - 1970) + (y - 1969) div 4 - (y - 1901) div 100 + (y - 1601) div 400"

text \<open>
  The year of a day number, by the 400, 100, 4 and 1 year cycles counted from
  1 January 1601 (day number -134774).
\<close>

definition YearFromDay :: "int \<Rightarrow> int" where
  "YearFromDay d =
     (let n = d + 134774;
          q400 = n div 146097; r = n mod 146097;
          c = min 3 (r div 36524); r2 = r - c * 36524;
          q4 = r2 div 1461; r3 = r2 mod 1461;
          a = min 3 (r3 div 365)
      in 1601 + 400 * q400 + 100 * c + 4 * q4 + a)"

definition YearFromTime :: "int \<Rightarrow> int" where
  "YearFromTime t = YearFromDay (Day t)"

definition InLeapYear :: "int \<Rightarrow> int" where
  "InLeapYear t = (if DaysInYear (YearFromTime t) = 366 then 1 else 0)"

definition DayWithinYear :: "int \<Rightarrow> int" where
  "DayWithinYear t = Day t - DayFromYear (YearFromTime t)"

definition MonthFromTime :: "int \<Rightarrow> int" where
  "MonthFromTime t =
     (let d = DayWithinYear t; l = InLeapYear t
      in if d < 31 then 0
         else if d < 59 + l then 1
         else if d < 90 + l then 2
         else if d < 120 + l then 3
         else if d < 151 + l then 4
         else if d < 181 + l then 5
         else if d < 212 + l then 6
         else if d < 243 + l then 7
         else if d < 273 + l then 8
         else if d < 304 + l then 9
         else if d < 334 + l then 10
         else 11)"

definition LocalTime :: "(int \<Rightarrow> int) \<Rightarrow> int \<Rightarrow> int" where
  "LocalTime tza t = t + tza t"

definition getFullYear :: "(int \<Rightarrow> int) \<Rightarrow> date \<Rightarrow> int" where
  "getFullYear tza d = YearFromTime (LocalTime tza d)"

definition getMonth :: "(int \<Rightarrow> int) \<Rightarrow> date \<Rightarrow> int" where
  "getMonth tza d = MonthFromTime (LocalTime tza d)"

section \<open>The document database\<close>

text \<open>
  The database is a managed service and not code of this repository; the program reaches it
  through the SDK functions \<open>addDoc\<close>, \<open>updateDoc\<close>, \<open>deleteDoc\<close> and \<open>getDocs\<close>.
  The model follows the documented behaviour of these calls. Its state is the content of
  the collection (document ids with their data, in creation order) and the log of the calls
  issued so far. What the program cannot decide (whether the backend rejects a call, which
  id it generates, what the server clock shows, the host's time zone) is read from an
  environment; the position in the log stands for the moment of the call.
\<close>

datatype where_op = OpEq | OpArrayContains

datatype direction = Asc | Desc

record query_document_snapshot =
  doc_id :: jsstring
  doc_data :: document

datatype query_constraint =
    Where string where_op fvalue
  | OrderBy string direction
  | Limit int
  | StartAfter query_document_snapshot

datatype db_call =
    AddDoc string document
  | UpdateDoc string jsstring document
  | DeleteDoc string jsstring
  | GetDocs string "query_constraint list"

record backend =
  docs :: "(jsstring \<times> document) list"
  db_log :: "db_call list"

record env =
  localTZA :: "int \<Rightarrow> int"
  db_failure :: "nat \<Rightarrow> db_call \<Rightarrow> js_exn option"
  auto_id :: "nat \<Rightarrow> jsstring"
  server_time :: "nat \<Rightarrow> timestamp"

text \<open>The server replaces the \<open>serverTimestamp()\<close> sentinel by its own time on write.\<close>

definition resolve :: "timestamp \<Rightarrow> document \<Rightarrow> document" where
  "resolve t d = (\<lambda>k. case d k of Some ServerTimestamp \<Rightarrow> Some (TimestampV t) | v \<Rightarrow> v)"

definition issue :: "db_call \<Rightarrow> backend \<Rightarrow> backend" where
  "issue c b = b\<lparr>db_log := db_log b @ [c]\<rparr>"

definition addDoc :: "env \<Rightarrow> string \<Rightarrow> document \<Rightarrow> backend \<Rightarrow> (js_exn + jsstring) \<times> backend" where
  "addDoc e coll d b =
     (let n = length (db_log b); b1 = issue (AddDoc coll d) b
      in case db_failure e n (AddDoc coll d) of
           Some x \<Rightarrow> (Inl x, b1)
         | None \<Rightarrow>
             (Inr (auto_id e n),
              b1\<lparr>docs := docs b @ [(auto_id e n, resolve (server_time e n) d)]\<rparr>))"

text \<open>\<open>updateDoc\<close> merges the given fields into an existing document and fails on a
  document that does not exist.\<close>

definition merge_into :: "jsstring \<Rightarrow> document \<Rightarrow> jsstring \<times> document \<Rightarrow> jsstring \<times> document" where
  "merge_into i d p = (if fst p = i then (i, snd p ++ d) else p)"

definition updateDoc :: "env \<Rightarrow> string \<Rightarrow> jsstring \<Rightarrow> document \<Rightarrow> backend \<Rightarrow> (js_exn + unit) \<times> backend" where
  "updateDoc e coll i d b =
     (let n = length (db_log b); b1 = issue (UpdateDoc coll i d) b
      in case db_failure e n (UpdateDoc coll i d) of
           Some x \<Rightarrow> (Inl x, b1)
         | None \<Rightarrow>
             if i \<in> fst ` set (docs b)
             then (Inr (), b1\<lparr>docs := map (merge_into i (resolve (server_time e n) d)) (docs b)\<rparr>)
             else (Inl (Error (lit ''No document to update'')), b1))"

definition deleteDoc :: "env \<Rightarrow> string \<Rightarrow> jsstring \<Rightarrow> backend \<Rightarrow> (js_exn + unit) \<times> backend" where
  "deleteDoc e coll i b =
     (let n = length (db_log b); b1 = issue (DeleteDoc coll i) b
      in case db_failure e n (DeleteDoc coll i) of
           Some x \<Rightarrow> (Inl x, b1)
         | None \<Rightarrow> (Inr (), b1\<lparr>docs := filter (\<lambda>p. fst p \<noteq> i) (docs b)\<rparr>))"

subsection \<open>Queries\<close>

text \<open>
  A \<open>where\<close> clause with \<open>==\<close> holds of a document that has the field with that value;
  with \<open>array-contains\<close>, of a document whose field is an array holding the string. An
  \<open>orderBy\<close> clause filters too: a document without the field is not returned.
\<close>

fun where_holds :: "where_op \<Rightarrow> fvalue option \<Rightarrow> fvalue \<Rightarrow> bool" where
  "where_holds OpEq (Some x) v = (x = v)"
| "where_holds OpArrayContains (Some (Arr xs)) (Str s) = (s \<in> set xs)"
| "where_holds _ _ _ = False"

fun matches :: "query_constraint \<Rightarrow> document \<Rightarrow> bool" where
  "matches (Where f opr v) d = where_holds opr (d f) v"
| "matches (OrderBy f dir) d = (d f \<noteq> None)"
| "matches _ d = True"

text \<open>
  The order of values of a field: first by type (null, number, timestamp, string, array),
  then by the value itself; documents that tie are ordered by their id.
\<close>

fun order_key :: "fvalue \<Rightarrow> nat \<times> (int \<times> int) \<times> jsstring list" where
  "order_key Null = (0, (0, 0), [])"
| "order_key (Num n) = (1, (n, 0), [])"
| "order_key (TimestampV t) = (2, (seconds t, nanoseconds t), [])"
| "order_key ServerTimestamp = (2, (0, 0), [])"
| "order_key (Str s) = (3, (0, 0), [s])"
| "order_key (Arr xs) = (4, (0, 0), xs)"

definition sort_field :: "string \<Rightarrow> jsstring \<times> document \<Rightarrow> (nat \<times> (int \<times> int) \<times> jsstring list) \<times> jsstring" where
  "sort_field f p = (order_key (the (snd p f)), fst p)"

text \<open>The ordering of a query is its \<open>orderBy\<close> clause (the queries of this program have
  one); a query without one is ordered by document id.\<close>

fun ordering :: "query_constraint list \<Rightarrow> (string \<times> direction) option" where
  "ordering [] = None"
| "ordering (OrderBy f dir # cs) = Some (f, dir)"
| "ordering (c # cs) = ordering cs"

fun order_by :: "(string \<times> direction) option \<Rightarrow> (jsstring \<times> document) list \<Rightarrow> (jsstring \<times> document) list" where
  "order_by None ds = sort_key fst ds"
| "order_by (Some (f, Asc)) ds = sort_key (sort_field f) ds"
| "order_by (Some (f, Desc)) ds = rev (sort_key (sort_field f) ds)"

text \<open>A cursor \<open>startAfter(snapshot)\<close> keeps the documents that come strictly after the
  snapshot's own position in the ordering.\<close>

fun comes_after :: "(string \<times> direction) option \<Rightarrow> query_document_snapshot \<Rightarrow> jsstring \<times> document \<Rightarrow> bool" where
  "comes_after None s p = (doc_id s < fst p)"
| "comes_after (Some (f, Asc)) s p = (sort_field f (doc_id s, doc_data s) < sort_field f p)"
| "comes_after (Some (f, Desc)) s p = (sort_field f p < sort_field f (doc_id s, doc_data s))"

fun start_after :: "query_constraint list \<Rightarrow> (string \<times> direction) option \<Rightarrow> (jsstring \<times> document) list \<Rightarrow> (jsstring \<times> document) list" where
  "start_after [] ord ds = ds"
| "start_after (StartAfter s # cs) ord ds = filter (comes_after ord s) ds"
| "start_after (c # cs) ord ds = start_after cs ord ds"

fun limit_to :: "query_constraint list \<Rightarrow> (jsstring \<times> document) list \<Rightarrow> (jsstring \<times> document) list" where
  "limit_to [] ds = ds"
| "limit_to (Limit n # cs) ds = take (nat n) ds"
| "limit_to (c # cs) ds = limit_to cs ds"

definition satisfies :: "query_constraint list \<Rightarrow> jsstring \<times> document \<Rightarrow> bool" where
  "satisfies cs p = list_all (\<lambda>c. matches c (snd p)) cs"

definition run_query :: "query_constraint list \<Rightarrow> (jsstring \<times> document) list \<Rightarrow> query_document_snapshot list" where
  "run_query cs ds =
     map (\<lambda>p. \<lparr>doc_id = fst p, doc_data = snd p\<rparr>)
       (limit_to cs (start_after cs (ordering cs) (order_by (ordering cs) (filter (satisfies cs) ds))))"

definition getDocs :: "env \<Rightarrow> string \<Rightarrow> query_constraint list \<Rightarrow> backend \<Rightarrow> (js_exn + query_document_snapshot list) \<times> backend" where
  "getDocs e coll cs b =
     (let n = length (db_log b); b1 = issue (GetDocs coll cs) b
      in case db_failure e n (GetDocs coll cs) of
           Some x \<Rightarrow> (Inl x, b1)
         | None \<Rightarrow> (Inr (run_query cs (docs b)), b1))"

section \<open>The record module (records.ts)\<close>

record user_profile =
  displayName :: "jsstring option"
  familyIDs :: "jsstring list option"

text \<open>A property of type \<open>string | null\<close> as a field value.\<close>

fun nullable :: "jsstring option \<Rightarrow> fvalue" where
  "nullable None = Null"
| "nullable (Some s) = Str s"

text \<open>
  The object literal of \<open>addRecord\<close>: the spread of \<open>recordData\<close>, then \<open>babyId\<close>,
  \<open>creatorName\<close> and \<open>timestamp\<close> (\<open>recordData.timestamp || serverTimestamp()\<close>).
\<close>

definition dataToSave0 :: "document \<Rightarrow> user_profile \<Rightarrow> document" where
  "dataToSave0 recordData userProfile =
     recordData
       (''babyId'' \<mapsto> Str (lit ''baby_01''),
        ''creatorName'' \<mapsto> nullable (displayName userProfile),
        ''timestamp'' \<mapsto>
           (if truthy (recordData ''timestamp'') then the (recordData ''timestamp'')
            else ServerTimestamp))"

text \<open>The object after the \<open>if\<close> that adds \<open>year\<close> and \<open>month\<close> to a snapshot.\<close>

definition dataToSave :: "env \<Rightarrow> document \<Rightarrow> user_profile \<Rightarrow> document" where
  "dataToSave e recordData userProfile =
     (let d = dataToSave0 recordData userProfile;
          t = the (d ''timestamp'')
      in if recordData ''type'' = Some (Str (lit ''snapshot'')) \<and> instanceofTimestamp t
         then let date = toDate (timestamp_of t)
              in d(''year'' \<mapsto> Num (getFullYear (localTZA e) date),
                   ''month'' \<mapsto> Num (getMonth (localTZA e) date + 1))
         else d)"

definition addRecord :: "env \<Rightarrow> document \<Rightarrow> user_profile option \<Rightarrow> backend \<Rightarrow> (js_exn + jsstring) \<times> backend" where
  "addRecord e recordData userProfile b =
     (if \<not> truthy (recordData ''familyId'') \<or> \<not> truthy (recordData ''creatorId'')
      then (Inl (Error (lit ''Family ID and Creator ID are required.'')), b)
      else case userProfile of
             None \<Rightarrow> (Inl (Error (lit ''User profile is not available.'')), b)
           | Some p \<Rightarrow>
               (case addDoc e ''records'' (dataToSave e recordData p) b of
                  (Inl x, b') \<Rightarrow> (Inl (Error (lit ''Failed to add record.'')), b')
                | (Inr docRef, b') \<Rightarrow> (Inr docRef, b')))"

definition updateRecord :: "env \<Rightarrow> jsstring \<Rightarrow> document \<Rightarrow> backend \<Rightarrow> (js_exn + unit) \<times> backend" where
  "updateRecord e recordId updatedData b =
     (if recordId = []
      then (Inl (Error (lit ''Record ID is required for updating.'')), b)
      else case updateDoc e ''records'' recordId updatedData b of
             (Inl x, b') \<Rightarrow> (Inl (Error (lit ''Failed to update record.'')), b')
           | (Inr u, b') \<Rightarrow> (Inr (), b'))"

definition deleteRecord :: "env \<Rightarrow> jsstring \<Rightarrow> backend \<Rightarrow> (js_exn + unit) \<times> backend" where
  "deleteRecord e recordId b =
     (if recordId = []
      then (Inl (Error (lit ''Record ID is required for deletion.'')), b)
      else case deleteDoc e ''records'' recordId b of
             (Inl x, b') \<Rightarrow> (Inl (Error (lit ''Failed to delete record.'')), b')
           | (Inr u, b') \<Rightarrow> (Inr (), b'))"

text \<open>The options of \<open>getSnapshots\<close>; an absent property is \<open>None\<close>.\<close>

record snapshot_filter =
  year :: "int option"
  month :: "int option"
  tag :: "jsstring option"

record snapshot_options =
  perPage :: "int option"
  lastDoc :: "query_document_snapshot option"
  filter_opt :: "snapshot_filter option"

text \<open>\<open>{ id: doc.id, ...doc.data() }\<close>: the data is spread over the id.\<close>

definition with_id :: "query_document_snapshot \<Rightarrow> document" where
  "with_id d = [''id'' \<mapsto> Str (doc_id d)] ++ doc_data d"

text \<open>The constraints \<open>getSnapshots\<close> collects in \<open>baseConstraints\<close>, push by push.\<close>

definition push_year :: "snapshot_filter \<Rightarrow> query_constraint list \<Rightarrow> query_constraint list" where
  "push_year f cs =
     (case year f of
        Some y \<Rightarrow> if y \<noteq> 0 then cs @ [Where ''year'' OpEq (Num y)] else cs
      | None \<Rightarrow> cs)"

definition push_month :: "snapshot_filter \<Rightarrow> query_constraint list \<Rightarrow> query_constraint list" where
  "push_month f cs =
     (case month f of
        Some m \<Rightarrow> if m \<noteq> 0 then cs @ [Where ''month'' OpEq (Num m)] else cs
      | None \<Rightarrow> cs)"

definition push_tag :: "snapshot_filter \<Rightarrow> query_constraint list \<Rightarrow> query_constraint list" where
  "push_tag f cs =
     (case tag f of
        Some t \<Rightarrow>
          if t \<noteq> [] \<and> trim t \<noteq> [] then cs @ [Where ''tags'' OpArrayContains (Str (trim t))]
          else cs
      | None \<Rightarrow> cs)"

definition baseConstraints :: "jsstring \<Rightarrow> snapshot_options \<Rightarrow> query_constraint list" where
  "baseConstraints familyId options =
     (let perPage' = (case perPage options of Some n \<Rightarrow> if n \<noteq> 0 then n else 20 | None \<Rightarrow> 20);
          c0 = [Where ''familyId'' OpEq (Str familyId),
                Where ''type'' OpEq (Str (lit ''snapshot''))];
          c1 = (case filter_opt options of
                  Some f \<Rightarrow> push_tag f (push_month f (push_year f c0))
                | None \<Rightarrow> c0);
          c2 = c1 @ [OrderBy ''timestamp'' Desc];
          c3 = c2 @ [Limit perPage']
      in case lastDoc options of
           Some d \<Rightarrow> c3 @ [StartAfter d]
         | None \<Rightarrow> c3)"

record snapshots_page =
  snapshots :: "document list"
  lastVisible :: "query_document_snapshot option"

definition getSnapshots :: "env \<Rightarrow> jsstring \<Rightarrow> snapshot_options \<Rightarrow> backend \<Rightarrow> (js_exn + snapshots_page) \<times> backend" where
  "getSnapshots e familyId options b =
     (case getDocs e ''records'' (baseConstraints familyId options) b of
        (Inl x, b') \<Rightarrow> (Inl x, b')
      | (Inr ds, b') \<Rightarrow>
          (Inr \<lparr>snapshots = map with_id ds,
                lastVisible = (if ds = [] then None else Some (last ds))\<rparr>, b'))"

definition getMeasurementRecords :: "env \<Rightarrow> jsstring \<Rightarrow> jsstring \<Rightarrow> backend \<Rightarrow> (js_exn + document list) \<times> backend" where
  "getMeasurementRecords e familyId babyId b =
     (case getDocs e ''records''
             [Where ''familyId'' OpEq (Str familyId),
              Where ''babyId'' OpEq (Str babyId),
              Where ''type'' OpEq (Str (lit ''measurement'')),
              OrderBy ''timestamp'' Asc] b of
        (Inl x, b') \<Rightarrow> (Inl x, b')
      | (Inr ds, b') \<Rightarrow> (Inr (map with_id ds), b'))"

section \<open>The record modal (AddRecordModal)\<close>

datatype record_type = Feeding | Diaper | Sleep | SolidFood | Measurement | Snapshot

text \<open>The string literal of each member of \<open>CreatableRecordType\<close>.\<close>

fun type_name :: "record_type \<Rightarrow> jsstring" where
  "type_name Feeding = lit ''feeding''"
| "type_name Diaper = lit ''diaper''"
| "type_name Sleep = lit ''sleep''"
| "type_name SolidFood = lit ''solid-food''"
| "type_name Measurement = lit ''measurement''"
| "type_name Snapshot = lit ''snapshot''"

subsection \<open>Tag parsing\<close>

text \<open>The character class \<open>[,\<dots>\s]\<close> of the tag separator: the ASCII comma, the
  fullwidth comma U+FF0C and white space.\<close>

definition isSeparator :: "jschar \<Rightarrow> bool" where
  "isSeparator c = (c = 0x2C \<or> c = 0xFF0C \<or> isWhiteSpace c)"

text \<open>
  \<open>String.prototype.split\<close> with the separator \<open>/[,\<dots>\s]+/\<close>: the pieces between the
  matches, where a match starts at the first separator character found and, being greedy,
  takes the whole run. \<open>cur\<close> is the piece collected so far. The empty string gives
  one empty piece, and a string that begins or ends with a separator gives an empty first
  or last piece.
\<close>

function split_on :: "jsstring \<Rightarrow> jsstring \<Rightarrow> jsstring list" where
  "split_on cur [] = [cur]"
| "split_on cur (c # cs) =
     (if isSeparator c then cur # split_on [] (dropWhile isSeparator cs)
      else split_on (cur @ [c]) cs)"
  by pat_completeness auto
termination
  by (relation "measure (\<lambda>(cur, s). length s)")
     (auto simp: less_Suc_eq_le length_dropWhile_le)

definition split :: "jsstring \<Rightarrow> jsstring list" where
  "split s = split_on [] s"

definition tagsArray :: "jsstring \<Rightarrow> jsstring list" where
  "tagsArray tags = filter (\<lambda>tag. length tag > 0) (split tags)"

subsection \<open>Component state, props and host\<close>

record jsfile =
  file_type :: jsstring
  file_name :: jsstring
  file_size :: nat

record compression_options =
  maxSizeMB :: rat
  maxWidthOrHeight :: nat
  useWebWorker :: bool
  fileType :: jsstring

record user =
  uid :: jsstring

record auth =
  user :: "user option"
  userProfile :: "user_profile option"

record props =
  recordType :: record_type
  existingRecord :: "document option"

record modal_state =
  isSubmitting :: bool
  isProcessing :: bool
  error :: jsstring
  notes_input :: jsstring
  tags :: jsstring
  amount :: jsstring
  foodItems :: jsstring
  reaction :: jsstring
  measurementType :: jsstring
  value_input :: jsstring
  recordDate :: jsstring
  imageFile :: "jsfile option"
  imagePreview :: "jsstring option"

text \<open>
  Calls that leave the component, in the order they are made: the compression library, the
  storage module, the object URLs of the preview and the \<open>onClose\<close> callback. The host
  decides what the library calls and the conversions \<open>Number(s)\<close> and
  \<open>Timestamp.fromDate(new Date(s))\<close> give.
\<close>

datatype ui_call =
    ImageCompression jsfile compression_options
  | UploadImage jsfile jsstring
  | RevokeObjectURL jsstring
  | CreateObjectURL jsfile
  | OnClose

record host =
  imageCompression_result :: "jsfile \<Rightarrow> compression_options \<Rightarrow> js_exn + jsfile"
  uploadImage_result :: "jsfile \<Rightarrow> jsstring \<Rightarrow> js_exn + jsstring"
  createObjectURL_result :: "jsfile \<Rightarrow> jsstring"
  toNumber :: "jsstring \<Rightarrow> fvalue"
  timestamp_fromDate :: "jsstring \<Rightarrow> js_exn + timestamp"

record world =
  db :: backend
  ui_log :: "ui_call list"

definition call :: "ui_call \<Rightarrow> world \<Rightarrow> world" where
  "call c w = w\<lparr>ui_log := ui_log w @ [c]\<rparr>"



definition msg_cannot_verify :: jsstring where
  "msg_cannot_verify = [0x7121, 0x6CD5, 0x9A57, 0x8B49, 0x4F7F, 0x7528, 0x8005, 0x8EAB, 0x4EFD]"

definition msg_select_image :: jsstring where
  "msg_select_image =
     [0x8ACB, 0x9078, 0x64C7, 0x4E00, 0x5F35, 0x8981, 0x4E0A, 0x50B3, 0x7684, 0x5716, 0x7247,
      0x3002]"

definition msg_save_failed :: jsstring where
  "msg_save_failed =
     [0x5132, 0x5B58, 0x5931, 0x6557, 0xFF0C, 0x8ACB, 0x7A0D, 0x5F8C, 0x518D, 0x8A66, 0x3002]"

subsection \<open>handleImageChange\<close>







subsection \<open>handleSubmit\<close>

text \<open>
  Modelled from the spec: the image storage module (\<open>uploadImage\<close> of \<open>lib/storage\<close>)
  is not among the sources. It uploads a compressed image blob and returns a URL; the
  upload can fail, and what it returns is the host's.
\<close>

definition uploadImage :: "host \<Rightarrow> jsfile \<Rightarrow> jsstring \<Rightarrow> world \<Rightarrow> (js_exn + jsstring) \<times> world" where
  "uploadImage h f userId w = (uploadImage_result h f userId, call (UploadImage f userId) w)"

text \<open>The object literal passed to \<open>addRecord\<close> for a snapshot.\<close>

definition snapshotRecord :: "jsstring \<Rightarrow> user \<Rightarrow> modal_state \<Rightarrow> jsstring \<Rightarrow> document" where
  "snapshotRecord familyId u st imageUrl =
     [''type'' \<mapsto> Str (lit ''snapshot''),
      ''familyId'' \<mapsto> Str familyId,
      ''creatorId'' \<mapsto> Str (uid u),
      ''notes'' \<mapsto> Str (notes_input st),
      ''imageUrl'' \<mapsto> Str imageUrl,
      ''tags'' \<mapsto> Arr (tagsArray (tags st))]"

text \<open>\<open>recordData\<close> of the other record types, after the \<open>switch\<close>.\<close>

definition formRecordData :: "host \<Rightarrow> record_type \<Rightarrow> modal_state \<Rightarrow> js_exn + document" where
  "formRecordData h t st =
     (let recordData = [''notes'' \<mapsto> Str (notes_input st)]
      in case t of
           Feeding \<Rightarrow> Inr (recordData(''amount'' \<mapsto> toNumber h (amount st)))
         | SolidFood \<Rightarrow>
             Inr (recordData(''foodItems'' \<mapsto> Str (foodItems st),
                             ''reaction'' \<mapsto> Str (reaction st)))
         | Measurement \<Rightarrow>
             (case timestamp_fromDate h (recordDate st) of
                Inl x \<Rightarrow> Inl x
              | Inr measurementTimestamp \<Rightarrow>
                  Inr (recordData(''measurementType'' \<mapsto> Str (measurementType st),
                                  ''value'' \<mapsto> toNumber h (value_input st),
                                  ''timestamp'' \<mapsto> TimestampV measurementTimestamp)))
         | _ \<Rightarrow> Inr recordData)"

text \<open>\<open>existingRecord.id\<close> as the \<open>recordId\<close> argument; a missing id is falsy like the
  empty string.\<close>

definition record_id :: "document \<Rightarrow> jsstring" where
  "record_id r = (case r ''id'' of Some (Str i) \<Rightarrow> i | _ \<Rightarrow> [])"

text \<open>How the \<open>try\<close> block ends: it runs to its end, returns early, or throws.\<close>

datatype completion = Normal | Return | Throw js_exn

definition try_block :: "env \<Rightarrow> host \<Rightarrow> props \<Rightarrow> user \<Rightarrow> user_profile \<Rightarrow> jsstring \<Rightarrow> modal_state \<times> world \<Rightarrow> completion \<times> modal_state \<times> world" where
  "try_block e h pr u p familyId sw =
     (let st = fst sw; w = snd sw
      in if recordType pr = Snapshot
         then
           (case imageFile st of
              None \<Rightarrow> (Return, st\<lparr>error := msg_select_image, isSubmitting := False\<rparr>, w)
            | Some f \<Rightarrow>
                (case uploadImage h f (uid u) w of
                   (Inl x, w1) \<Rightarrow> (Throw x, st, w1)
                 | (Inr imageUrl, w1) \<Rightarrow>
                     (case addRecord e (snapshotRecord familyId u st imageUrl) (Some p) (db w1) of
                        (Inl x, b') \<Rightarrow> (Throw x, st, w1\<lparr>db := b'\<rparr>)
                      | (Inr docRef, b') \<Rightarrow> (Normal, st, w1\<lparr>db := b'\<rparr>))))
         else
           (case formRecordData h (recordType pr) st of
              Inl x \<Rightarrow> (Throw x, st, w)
            | Inr recordData \<Rightarrow>
                (case existingRecord pr of
                   Some r \<Rightarrow>
                     (case updateRecord e (record_id r) recordData (db w) of
                        (Inl x, b') \<Rightarrow> (Throw x, st, w\<lparr>db := b'\<rparr>)
                      | (Inr v, b') \<Rightarrow> (Normal, st, w\<lparr>db := b'\<rparr>))
                 | None \<Rightarrow>
                     (case addRecord e
                             (recordData(''type'' \<mapsto> Str (type_name (recordType pr)),
                                         ''familyId'' \<mapsto> Str familyId,
                                         ''creatorId'' \<mapsto> Str (uid u)))
                             (Some p) (db w) of
                        (Inl x, b') \<Rightarrow> (Throw x, st, w\<lparr>db := b'\<rparr>)
                      | (Inr docRef, b') \<Rightarrow> (Normal, st, w\<lparr>db := b'\<rparr>)))))"

text \<open>\<open>err instanceof Error ? err.message : ...\<close>.\<close>

fun error_message :: "js_exn \<Rightarrow> jsstring" where
  "error_message (Error m) = m"
| "error_message NonError = msg_save_failed"

text \<open>The identity check: the user, the profile and a first family id.\<close>

definition identity :: "auth \<Rightarrow> (user \<times> user_profile \<times> jsstring) option" where
  "identity a =
     (case user a of
        None \<Rightarrow> None
      | Some u \<Rightarrow>
          (case userProfile a of
             None \<Rightarrow> None
           | Some p \<Rightarrow>
               (case familyIDs p of
                  Some (familyId # rest) \<Rightarrow> Some (u, p, familyId)
                | _ \<Rightarrow> None)))"

definition handleSubmit :: "env \<Rightarrow> host \<Rightarrow> props \<Rightarrow> auth \<Rightarrow> modal_state \<times> world \<Rightarrow> modal_state \<times> world" where
  "handleSubmit e h pr a sw =
     (let st = fst sw; w = snd sw
      in case identity a of
           None \<Rightarrow> (st\<lparr>error := msg_cannot_verify\<rparr>, w)
         | Some (u, p, familyId) \<Rightarrow>
             (case try_block e h pr u p familyId (st\<lparr>isSubmitting := True, error := []\<rparr>, w) of
                (Normal, st1, w1) \<Rightarrow> (st1\<lparr>isSubmitting := False\<rparr>, call OnClose w1)
              | (Return, st1, w1) \<Rightarrow> (st1\<lparr>isSubmitting := False\<rparr>, w1)
              | (Throw x, st1, w1) \<Rightarrow>
                  (st1\<lparr>error := error_message x, isSubmitting := False\<rparr>, w1)))"

section \<open>The floating action button\<close>

text \<open>
  The component's state is \<open>isOpen\<close>; the calls to the \<open>onAddRecord\<close> prop are logged
  with their argument. The rendered buttons are listed in source order with their
  \<open>onClick\<close> handlers.
\<close>

record fab =
  isOpen :: bool
  onAddRecord_calls :: "record_type list"

definition handleSubButtonClick :: "record_type \<Rightarrow> fab \<Rightarrow> fab" where
  "handleSubButtonClick t s =
     (let s1 = s\<lparr>onAddRecord_calls := onAddRecord_calls s @ [t]\<rparr>
      in s1\<lparr>isOpen := False\<rparr>)"

datatype fab_button = SubButton record_type | MainButton

definition buttons :: "fab_button list" where
  "buttons = [SubButton Snapshot, SubButton Sleep, SubButton Diaper, SubButton Feeding, MainButton]"

fun onClick :: "fab_button \<Rightarrow> fab \<Rightarrow> fab" where
  "onClick (SubButton t) s = handleSubButtonClick t s"
| "onClick MainButton s = s\<lparr>isOpen := \<not> isOpen s\<rparr>"

section \<open>The queries in the words of the specification\<close>

text \<open>
  The query of \<open>getSnapshots\<close> as the specification describes it: the two fixed filters, a
  filter on \<open>year\<close> and on \<open>month\<close> when \<open>options.filter\<close> gives a nonzero number, a
  filter on the trimmed tag when the tag is present and not all white space, the ordering,
  the limit (20 when \<open>perPage\<close> is absent or 0) and the cursor when \<open>lastDoc\<close> is given.
\<close>

definition year_filter :: "snapshot_options \<Rightarrow> int option" where
  "year_filter options = (case filter_opt options of Some f \<Rightarrow> year f | None \<Rightarrow> None)"

definition month_filter :: "snapshot_options \<Rightarrow> int option" where
  "month_filter options = (case filter_opt options of Some f \<Rightarrow> month f | None \<Rightarrow> None)"

definition tag_filter :: "snapshot_options \<Rightarrow> jsstring option" where
  "tag_filter options = (case filter_opt options of Some f \<Rightarrow> tag f | None \<Rightarrow> None)"

definition snapshots_query_spec :: "jsstring \<Rightarrow> snapshot_options \<Rightarrow> query_constraint list" where
  "snapshots_query_spec familyId options =
     [Where ''familyId'' OpEq (Str familyId), Where ''type'' OpEq (Str (lit ''snapshot''))]
     @ (case year_filter options of
          Some y \<Rightarrow> if y \<noteq> 0 then [Where ''year'' OpEq (Num y)] else []
        | None \<Rightarrow> [])
     @ (case month_filter options of
          Some m \<Rightarrow> if m \<noteq> 0 then [Where ''month'' OpEq (Num m)] else []
        | None \<Rightarrow> [])
     @ (case tag_filter options of
          Some t \<Rightarrow>
            if \<not> list_all isWhiteSpace t then [Where ''tags'' OpArrayContains (Str (trim t))] else []
        | None \<Rightarrow> [])
     @ [OrderBy ''timestamp'' Desc]
     @ [Limit (case perPage options of Some n \<Rightarrow> if n = 0 then 20 else n | None \<Rightarrow> 20)]
     @ (case lastDoc options of Some d \<Rightarrow> [StartAfter d] | None \<Rightarrow> [])"

text \<open>The query of \<open>getMeasurementRecords\<close> and the records the specification says it
  returns.\<close>

definition measurement_query :: "jsstring \<Rightarrow> jsstring \<Rightarrow> query_constraint list" where
  "measurement_query familyId babyId =
     [Where ''familyId'' OpEq (Str familyId), Where ''babyId'' OpEq (Str babyId),
      Where ''type'' OpEq (Str (lit ''measurement'')), OrderBy ''timestamp'' Asc]"

definition is_measurement_of :: "jsstring \<Rightarrow> jsstring \<Rightarrow> jsstring \<times> document \<Rightarrow> bool" where
  "is_measurement_of familyId babyId p =
     (snd p ''familyId'' = Some (Str familyId) \<and> snd p ''babyId'' = Some (Str babyId) \<and>
      snd p ''type'' = Some (Str (lit ''measurement'')))"

definition has_timestamp :: "jsstring \<times> document \<Rightarrow> bool" where
  "has_timestamp p = (snd p ''timestamp'' \<noteq> None)"

section \<open>The modal in the words of the specification\<close>

text \<open>The tags in the words of the specification: the maximal runs of characters that are
  not separators, in order.\<close>

function tokens :: "jsstring \<Rightarrow> jsstring list" where
  "tokens [] = []"
| "tokens (c # cs) =
     (if isSeparator c then tokens cs
      else takeWhile (\<lambda>x. \<not> isSeparator x) (c # cs) # tokens (dropWhile (\<lambda>x. \<not> isSeparator x) cs))"
  by pat_completeness auto
termination
  by (relation "measure length") (auto simp: less_Suc_eq_le length_dropWhile_le)

text \<open>The \<open>onClose\<close> callback is among the calls made between two worlds.\<close>

definition onClose_invoked :: "world \<Rightarrow> world \<Rightarrow> bool" where
  "onClose_invoked w w' = (OnClose \<in> set (drop (length (ui_log w)) (ui_log w')))"

section \<open>Concrete inputs\<close>

text \<open>A host in UTC whose backend accepts every call, an empty collection and a signed-in
  user; the theorems below are run on them.\<close>

definition env0 :: env where
  "env0 = \<lparr>localTZA = (\<lambda>t. 0), db_failure = (\<lambda>n c. None),
           auto_id = (\<lambda>n. lit ''doc'' @ [of_nat n + 0x30]),
           server_time = (\<lambda>n. Timestamp (1700000000 + int n) 0)\<rparr>"

definition backend0 :: backend where
  "backend0 = \<lparr>docs = [], db_log = []\<rparr>"

definition profile0 :: user_profile where
  "profile0 = \<lparr>displayName = Some (lit ''Mia''), familyIDs = Some [lit ''fam1'']\<rparr>"

definition recordData9 :: document where
  "recordData9 =
     [''familyId'' \<mapsto> Str (lit ''fam1''), ''creatorId'' \<mapsto> Str (lit ''u1''),
      ''type'' \<mapsto> Str (lit ''feeding''), ''babyId'' \<mapsto> Str (lit ''baby_77''),
      ''creatorName'' \<mapsto> Str (lit ''Eve'')]"





definition measurement5 :: "int \<Rightarrow> document" where
  "measurement5 t =
     [''familyId'' \<mapsto> Str (lit ''fam1''), ''babyId'' \<mapsto> Str (lit ''baby_01''),
      ''type'' \<mapsto> Str (lit ''measurement''), ''timestamp'' \<mapsto> TimestampV (Timestamp t 0)]"

definition backend5 :: backend where
  "backend5 =
     \<lparr>docs = [(lit ''m1'', (measurement5 200)(''id'' \<mapsto> Str (lit ''zzz''))),
              (lit ''m2'', (measurement5 150)(''timestamp'' := None)),
              (lit ''m3'', measurement5 100),
              (lit ''m4'', (measurement5 50)(''type'' \<mapsto> Str (lit ''feeding'')))],
      db_log = []\<rparr>"

definition user0 :: user where
  "user0 = \<lparr>uid = lit ''u1''\<rparr>"

definition auth0 :: auth where
  "auth0 = \<lparr>user = Some user0, userProfile = Some profile0\<rparr>"


definition compressed0 :: jsfile where
  "compressed0 = \<lparr>file_type = lit ''image/jpeg'', file_name = lit ''a.png'', file_size = 400000\<rparr>"

definition host0 :: host where
  "host0 =
     \<lparr>imageCompression_result = (\<lambda>f opts. Inr compressed0),
      uploadImage_result = (\<lambda>f i. Inr (lit ''https://img/1'')),
      createObjectURL_result = (\<lambda>f. lit ''blob:1''),
      toNumber = (\<lambda>s. Num 0),
      timestamp_fromDate = (\<lambda>s. Inr (Timestamp 1709208000 0))\<rparr>"


definition state0 :: modal_state where
  "state0 =
     \<lparr>isSubmitting = False, isProcessing = False, error = [], notes_input = lit ''hi'',
      tags = lit ''a, b'', amount = [], foodItems = [], reaction = lit ''good'',
      measurementType = lit ''weight'', value_input = [], recordDate = lit ''2024-02-29'',
      imageFile = None, imagePreview = None\<rparr>"

definition world0 :: world where
  "world0 = \<lparr>db = backend0, ui_log = []\<rparr>"

definition props_snapshot :: props where
  "props_snapshot = \<lparr>recordType = Snapshot, existingRecord = None\<rparr>"

definition tags3 :: jsstring where
  "tags3 = [0xFF0C, 0x3000] @ lit ''first'' @ [0x2C, 0x20] @ lit ''park'' @ [0x0A]"

definition tags_blank :: jsstring where
  "tags_blank = [0x2C, 0x20, 0xFF0C, 0x09, 0x3000]"


definition recordData_plain :: document where
  "recordData_plain =
     [''familyId'' \<mapsto> Str (lit ''fam1''), ''creatorId'' \<mapsto> Str (lit ''u1''),
      ''type'' \<mapsto> Str (lit ''snapshot'')]"

definition recordData10 :: document where
  "recordData10 = recordData_plain(''year'' \<mapsto> Num 2024)"

definition options10 :: snapshot_options where
  "options10 =
     \<lparr>perPage = None, lastDoc = None,
      filter_opt = Some \<lparr>year = Some 2024, month = None, tag = None\<rparr>\<rparr>"

section \<open>Basic facts\<close>

lemma of_char_lt_256: "of_char c < (256::nat)"
  by (cases c) (simp add: of_char_def horner_sum_eq_sum)

lemma jschar_of_char_inj: "(of_nat (of_char c) :: jschar) = of_nat (of_char d) \<longleftrightarrow> c = d"
proof -
  have c: "of_char c < (65536::nat)" and d: "of_char d < (65536::nat)"
    by (rule less_trans [OF of_char_lt_256], simp)+
  have "take_bit 16 (of_char c :: nat) = of_char c" "take_bit 16 (of_char d :: nat) = of_char d"
    using c d by (simp_all add: take_bit_nat_eq_self_iff)
  then show ?thesis
    by (simp add: word_of_nat_eq_iff)
qed

lemma lit_eq_iff [simp]: "lit a = lit b \<longleftrightarrow> a = b"
proof
  assume "lit a = lit b"
  then show "a = b"
    unfolding lit_def
  proof (induction a arbitrary: b)
    case Nil
    then show ?case by simp
  next
    case (Cons x xs)
    then show ?case by (cases b) (auto simp: jschar_of_char_inj)
  qed
qed simp

lemma lit_Nil [simp]: "lit s = [] \<longleftrightarrow> s = []"
  by (simp add: lit_def)

lemma addDoc_cases:
  "addDoc e coll d b =
     (case db_failure e (length (db_log b)) (AddDoc coll d) of
        Some x \<Rightarrow> (Inl x, b\<lparr>db_log := db_log b @ [AddDoc coll d]\<rparr>)
      | None \<Rightarrow>
          (Inr (auto_id e (length (db_log b))),
           \<lparr>docs = docs b @ [(auto_id e (length (db_log b)),
                               resolve (server_time e (length (db_log b))) d)],
            db_log = db_log b @ [AddDoc coll d]\<rparr>))"
  by (simp add: addDoc_def issue_def Let_def split: option.splits)

text \<open>What a successful \<open>addRecord\<close> has done.\<close>

lemma addRecord_Inr:
  assumes "addRecord e rd up b = (Inr docRef, b')"
  shows "\<exists>p. up = Some p \<and> truthy (rd ''familyId'') \<and> truthy (rd ''creatorId'')
           \<and> db_failure e (length (db_log b)) (AddDoc ''records'' (dataToSave e rd p)) = None
           \<and> docRef = auto_id e (length (db_log b))
           \<and> docs b' = docs b @ [(docRef, resolve (server_time e (length (db_log b))) (dataToSave e rd p))]
           \<and> db_log b' = db_log b @ [AddDoc ''records'' (dataToSave e rd p)]"
  using assms
  by (auto simp: addRecord_def addDoc_cases split: if_splits option.splits)

lemma addRecord_ok:
  assumes "truthy (rd ''familyId'')" "truthy (rd ''creatorId'')"
    and "db_failure e (length (db_log b)) (AddDoc ''records'' (dataToSave e rd p)) = None"
  shows "addRecord e rd (Some p) b =
           (Inr (auto_id e (length (db_log b))),
            \<lparr>docs = docs b @ [(auto_id e (length (db_log b)),
                                resolve (server_time e (length (db_log b))) (dataToSave e rd p))],
             db_log = db_log b @ [AddDoc ''records'' (dataToSave e rd p)]\<rparr>)"
  using assms by (simp add: addRecord_def addDoc_cases)

lemma dataToSave_babyId: "dataToSave e rd p ''babyId'' = Some (Str (lit ''baby_01''))"
  by (simp add: dataToSave_def dataToSave0_def Let_def)

lemma dataToSave_creatorName: "dataToSave e rd p ''creatorName'' = Some (nullable (displayName p))"
  by (simp add: dataToSave_def dataToSave0_def Let_def)



lemma resolve_dom: "resolve t d k = None \<longleftrightarrow> d k = None"
  by (simp add: resolve_def split: option.splits fvalue.splits)


lemma dropWhile_all_iff: "(\<forall>x \<in> set (dropWhile P xs). P x) \<longleftrightarrow> dropWhile P xs = []"
proof
  assume a: "\<forall>x \<in> set (dropWhile P xs). P x"
  show "dropWhile P xs = []"
  proof (rule ccontr)
    assume "dropWhile P xs \<noteq> []"
    then have "\<not> P (hd (dropWhile P xs))" by (rule hd_dropWhile)
    moreover have "hd (dropWhile P xs) \<in> set (dropWhile P xs)"
      using \<open>dropWhile P xs \<noteq> []\<close> by simp
    ultimately show False using a by blast
  qed
qed (simp del: dropWhile_eq_Nil_conv)

lemma trim_Nil_iff: "trim t = [] \<longleftrightarrow> list_all isWhiteSpace t"
proof -
  have "trim t = [] \<longleftrightarrow> (\<forall>x \<in> set (dropWhile isWhiteSpace t). isWhiteSpace x)"
    by (simp add: trim_def)
  also have "\<dots> \<longleftrightarrow> dropWhile isWhiteSpace t = []" by (rule dropWhile_all_iff)
  also have "\<dots> \<longleftrightarrow> list_all isWhiteSpace t"
    by (simp add: list_all_iff)
  finally show ?thesis .
qed

lemma not_all_ws_nonempty: "\<not> list_all isWhiteSpace t \<Longrightarrow> t \<noteq> []"
  by auto

lemma baseConstraints_spec: "baseConstraints familyId options = snapshots_query_spec familyId options"
  by (auto simp: baseConstraints_def snapshots_query_spec_def year_filter_def month_filter_def
      tag_filter_def push_year_def push_month_def push_tag_def trim_Nil_iff Let_def
      split: option.splits)

lemma getDocs_cases:
  "getDocs e coll cs b =
     (case db_failure e (length (db_log b)) (GetDocs coll cs) of
        Some x \<Rightarrow> (Inl x, b\<lparr>db_log := db_log b @ [GetDocs coll cs]\<rparr>)
      | None \<Rightarrow> (Inr (run_query cs (docs b)), b\<lparr>db_log := db_log b @ [GetDocs coll cs]\<rparr>))"
  by (simp add: getDocs_def issue_def Let_def split: option.splits)

lemma with_id_apply:
  "with_id d k = (case doc_data d k of Some v \<Rightarrow> Some v
                  | None \<Rightarrow> if k = ''id'' then Some (Str (doc_id d)) else None)"
  by (simp add: with_id_def map_add_def split: option.splits)

lemma satisfies_measurement:
  "satisfies (measurement_query familyId babyId) p \<longleftrightarrow>
     is_measurement_of familyId babyId p \<and> has_timestamp p"
  by (cases "snd p ''familyId''"; cases "snd p ''babyId''"; cases "snd p ''type''")
     (auto simp: satisfies_def measurement_query_def is_measurement_of_def has_timestamp_def)

lemma run_measurement_query:
  "run_query (measurement_query familyId babyId) ds =
     map (\<lambda>p. \<lparr>doc_id = fst p, doc_data = snd p\<rparr>)
       (sort_key (sort_field ''timestamp'')
          (filter (\<lambda>p. is_measurement_of familyId babyId p \<and> has_timestamp p) ds))"
proof -
  have "satisfies (measurement_query familyId babyId) =
          (\<lambda>p. is_measurement_of familyId babyId p \<and> has_timestamp p)"
    by (rule ext) (rule satisfies_measurement)
  then show ?thesis
    by (simp add: run_query_def) (simp add: measurement_query_def)
qed

lemma sorted_map_fst_lex:
  fixes xs :: "('a::linorder \<times> 'b::linorder) list"
  shows "sorted xs \<Longrightarrow> sorted (map fst xs)"
  by (induction xs) (auto simp: less_eq_prod_def)

lemma sorted_by_field:
  "sorted (map (\<lambda>p. order_key (the (snd p f))) (sort_key (sort_field f) ds))"
proof -
  have "sorted (map (sort_field f) (sort_key (sort_field f) ds))"
    by (rule sorted_sort_key)
  then have "sorted (map fst (map (sort_field f) (sort_key (sort_field f) ds)))"
    by (rule sorted_map_fst_lex)
  then show ?thesis
    by (simp add: comp_def sort_field_def)
qed

lemma tokens_dropWhile: "tokens (dropWhile isSeparator s) = tokens s"
  by (induction s) auto

lemma tokens_unfold:
  "tokens s =
     (if takeWhile (\<lambda>x. \<not> isSeparator x) s \<noteq> [] then [takeWhile (\<lambda>x. \<not> isSeparator x) s] else [])
     @ tokens (dropWhile (\<lambda>x. \<not> isSeparator x) s)"
  by (cases s) auto

lemma split_on_tokens:
  "filter (\<lambda>tag. length tag > 0) (split_on cur s) =
     (if cur @ takeWhile (\<lambda>x. \<not> isSeparator x) s \<noteq> []
      then [cur @ takeWhile (\<lambda>x. \<not> isSeparator x) s] else [])
     @ tokens (dropWhile (\<lambda>x. \<not> isSeparator x) s)"
proof (induction cur s rule: split_on.induct)
  case (1 cur)
  then show ?case by simp
next
  case (2 cur c cs)
  show ?case
  proof (cases "isSeparator c")
    case True
    have "tokens (c # cs) = tokens (dropWhile isSeparator cs)"
      using True by (simp add: tokens_dropWhile)
    also have "\<dots> = (if takeWhile (\<lambda>x. \<not> isSeparator x) (dropWhile isSeparator cs) \<noteq> []
        then [takeWhile (\<lambda>x. \<not> isSeparator x) (dropWhile isSeparator cs)] else [])
       @ tokens (dropWhile (\<lambda>x. \<not> isSeparator x) (dropWhile isSeparator cs))"
      by (rule tokens_unfold)
    finally show ?thesis
      using True 2(1) by simp
  next
    case False
    then show ?thesis using 2(2) by simp
  qed
qed

lemma tagsArray_tokens: "tagsArray s = tokens s"
  using split_on_tokens [of "[]" s] tokens_unfold [of s]
  by (simp add: tagsArray_def split_def)

lemma tokens_separators: "list_all isSeparator s \<Longrightarrow> tokens s = []"
  by (induction s) auto

lemma tokens_Cons_sep: "isSeparator c \<Longrightarrow> tokens (c # cs) = tokens cs"
  by simp

lemma tokens_Cons_char:
  "\<not> isSeparator c \<Longrightarrow>
   tokens (c # cs) = (c # takeWhile (\<lambda>x. \<not> isSeparator x) cs) # tokens (dropWhile (\<lambda>x. \<not> isSeparator x) cs)"
  by simp

lemma tokens_nonempty: "t \<in> set (tokens s) \<Longrightarrow> t \<noteq> [] \<and> (\<forall>c \<in> set t. \<not> isSeparator c)"
proof (induction s arbitrary: t rule: tokens.induct)
  case 1
  then show ?case by simp
next
  case (2 c cs)
  show ?case
  proof (cases "isSeparator c")
    case True
    from "2.prems" have "t \<in> set (tokens cs)"
      unfolding tokens_Cons_sep [OF True] .
    with "2.IH"(1) [OF True] show ?thesis .
  next
    case False
    from "2.prems" have "t \<in> set ((c # takeWhile (\<lambda>x. \<not> isSeparator x) cs) # tokens (dropWhile (\<lambda>x. \<not> isSeparator x) cs))"
      unfolding tokens_Cons_char [OF False] .
    then consider "t = c # takeWhile (\<lambda>x. \<not> isSeparator x) cs"
      | "t \<in> set (tokens (dropWhile (\<lambda>x. \<not> isSeparator x) cs))"
      by (auto simp del: tokens.simps)
    then show ?thesis
    proof cases
      case 1
      have "\<forall>x \<in> set (takeWhile (\<lambda>x. \<not> isSeparator x) cs). \<not> isSeparator x"
        by (blast dest: set_takeWhileD)
      with 1 False show ?thesis by (simp del: tokens.simps)
    next
      case 2
      with "2.IH"(2) [OF False] show ?thesis .
    qed
  qed
qed

lemma db_call [simp]: "db (call c w) = db w"
  by (simp add: call_def)

lemma ui_log_call [simp]: "ui_log (call c w) = ui_log w @ [c]"
  by (simp add: call_def)

lemma snapshotRecord_flags [simp]:
  "snapshotRecord familyId u (st\<lparr>isSubmitting := x, error := y\<rparr>) url = snapshotRecord familyId u st url"
  by (simp add: snapshotRecord_def)

lemma formRecordData_flags [simp]:
  "formRecordData h t (st\<lparr>isSubmitting := x, error := y\<rparr>) = formRecordData h t st"
  by (cases t) (simp_all add: formRecordData_def Let_def split: sum.splits)

lemma handleSubmit_no_image:
  assumes "identity a = Some (u, p, familyId)" "recordType pr = Snapshot" "imageFile st = None"
  shows "handleSubmit e h pr a (st, w) = (st\<lparr>error := msg_select_image, isSubmitting := False\<rparr>, w)"
  using assms by (simp add: handleSubmit_def try_block_def)

lemma handleSubmit_upload_fails:
  assumes "identity a = Some (u, p, familyId)" "recordType pr = Snapshot" "imageFile st = Some f"
    and "uploadImage_result h f (uid u) = Inl x"
  shows "handleSubmit e h pr a (st, w) =
           (st\<lparr>error := error_message x, isSubmitting := False\<rparr>, call (UploadImage f (uid u)) w)"
  using assms by (simp add: handleSubmit_def try_block_def uploadImage_def)

lemma handleSubmit_snapshot_add:
  assumes "identity a = Some (u, p, familyId)" "recordType pr = Snapshot" "imageFile st = Some f"
    and "uploadImage_result h f (uid u) = Inr url"
    and "addRecord e (snapshotRecord familyId u st url) (Some p) (db w) = (r, b')"
  shows "handleSubmit e h pr a (st, w) =
           (case r of
              Inl x \<Rightarrow> (st\<lparr>error := error_message x, isSubmitting := False\<rparr>,
                        (call (UploadImage f (uid u)) w)\<lparr>db := b'\<rparr>)
            | Inr docRef \<Rightarrow> (st\<lparr>error := [], isSubmitting := False\<rparr>,
                        call OnClose ((call (UploadImage f (uid u)) w)\<lparr>db := b'\<rparr>)))"
  using assms by (simp add: handleSubmit_def try_block_def uploadImage_def split: sum.splits)





lemma onClose_invoked_simps [simp]:
  "\<not> onClose_invoked w w"
  "\<not> onClose_invoked w (w\<lparr>db := b\<rparr>)"
  "\<not> onClose_invoked w (call (UploadImage f i) w)"
  "\<not> onClose_invoked w ((call (UploadImage f i) w)\<lparr>db := b\<rparr>)"
  "onClose_invoked w (call OnClose (w\<lparr>db := b\<rparr>))"
  "onClose_invoked w (call OnClose ((call (UploadImage f i) w)\<lparr>db := b\<rparr>))"
  by (simp_all add: onClose_invoked_def call_def)

lemma identity0: "identity auth0 = Some (user0, profile0, lit ''fam1'')"
  by (simp add: identity_def auth0_def profile0_def)

lemma addRecord_Inl_docs:
  assumes "addRecord e rd up b = (Inl x, b')"
  shows "docs b' = docs b"
  using assms
  by (auto simp: addRecord_def addDoc_cases split: if_splits option.splits)

lemma handleSubmit_no_identity:
  "identity a = None \<Longrightarrow> handleSubmit e h pr a (st, w) = (st\<lparr>error := msg_cannot_verify\<rparr>, w)"
  by (simp add: handleSubmit_def)

text \<open>A snapshot submission that changes the collection has stored one document, built from
  \<open>snapshotRecord\<close> with the URL the upload returned.\<close>

lemma handleSubmit_snapshot_stored:
  assumes snap: "recordType pr = Snapshot"
    and run: "handleSubmit e h pr a (st, w) = (st', w')"
    and changed: "docs (db w') \<noteq> docs (db w)"
  shows "\<exists>u p familyId f url docRef.
           identity a = Some (u, p, familyId) \<and> imageFile st = Some f \<and>
           uploadImage_result h f (uid u) = Inr url \<and>
           docs (db w') = docs (db w) @
             [(docRef, resolve (server_time e (length (db_log (db w))))
                         (dataToSave e (snapshotRecord familyId u st url) p))] \<and>
           ui_log w' = ui_log w @ [UploadImage f (uid u), OnClose]"
proof (cases "identity a")
  case None
  with run changed show ?thesis by (simp add: handleSubmit_no_identity)
next
  case (Some t)
  then obtain u p familyId where id: "identity a = Some (u, p, familyId)"
    by (cases t) auto
  show ?thesis
  proof (cases "imageFile st")
    case None
    with handleSubmit_no_image [OF id snap None] run changed show ?thesis by simp
  next
    case f: (Some f)
    show ?thesis
    proof (cases "uploadImage_result h f (uid u)")
      case (Inl x)
      with handleSubmit_upload_fails [OF id snap f Inl] run changed show ?thesis by auto
    next
      case (Inr url)
      obtain r b' where r: "addRecord e (snapshotRecord familyId u st url) (Some p) (db w) = (r, b')"
        by (cases "addRecord e (snapshotRecord familyId u st url) (Some p) (db w)")
      show ?thesis
      proof (cases r)
        case (Inl x)
        with addRecord_Inl_docs [of e _ _ "db w" x b'] r
          handleSubmit_snapshot_add [OF id snap f Inr r] run changed
        show ?thesis by auto
      next
        case ok: (Inr docRef)
        from addRecord_Inr [of e _ _ "db w" docRef b'] r ok
        have d: "docs b' = docs (db w) @
             [(docRef, resolve (server_time e (length (db_log (db w))))
                         (dataToSave e (snapshotRecord familyId u st url) p))]"
          by auto
        from handleSubmit_snapshot_add [OF id snap f Inr r] run ok
        have "w' = call OnClose ((call (UploadImage f (uid u)) w)\<lparr>db := b'\<rparr>)"
          by simp
        then have "docs (db w') = docs b'" "ui_log w' = ui_log w @ [UploadImage f (uid u), OnClose]"
          by (simp_all add: call_def)
        with id f Inr d show ?thesis by auto
      qed
    qed
  qed
qed

lemma dataToSave_field:
  assumes "k \<noteq> ''babyId''" "k \<noteq> ''creatorName''" "k \<noteq> ''timestamp''" "k \<noteq> ''year''" "k \<noteq> ''month''"
  shows "dataToSave e rd p k = rd k"
  using assms by (simp add: dataToSave_def dataToSave0_def Let_def)

lemma tagsArray_props:
  "tagsArray s = tokens s \<and>
   (\<forall>t \<in> set (tagsArray s). t \<noteq> [] \<and> (\<forall>c \<in> set t. \<not> isSeparator c)) \<and>
   (list_all isSeparator s \<longrightarrow> tagsArray s = [])"
  using tokens_nonempty [of _ s] tokens_separators [of s]
  by (auto simp: tagsArray_tokens)

lemma handleSubmit0:
  assumes "imageFile st = Some f" "db w = backend0"
  shows "handleSubmit env0 host0 props_snapshot auth0 (st, w) =
     (st\<lparr>error := [], isSubmitting := False\<rparr>,
      \<lparr>db = \<lparr>docs = [(lit ''doc0'', resolve (Timestamp 1700000000 0)
                 (dataToSave env0 (snapshotRecord (lit ''fam1'') user0 st (lit ''https://img/1'')) profile0))],
              db_log = [AddDoc ''records''
                 (dataToSave env0 (snapshotRecord (lit ''fam1'') user0 st (lit ''https://img/1'')) profile0)]\<rparr>,
       ui_log = ui_log w @ [UploadImage f (lit ''u1''), OnClose]\<rparr>)"
proof -
  have a: "addRecord env0 (snapshotRecord (lit ''fam1'') user0 st (lit ''https://img/1''))
     (Some profile0) (db w) =
   (Inr (lit ''doc0''),
    \<lparr>docs = [(lit ''doc0'', resolve (Timestamp 1700000000 0)
               (dataToSave env0 (snapshotRecord (lit ''fam1'') user0 st (lit ''https://img/1'')) profile0))],
     db_log = [AddDoc ''records''
               (dataToSave env0 (snapshotRecord (lit ''fam1'') user0 st (lit ''https://img/1'')) profile0)]\<rparr>)"
    by (simp add: assms(2) addRecord_ok snapshotRecord_def user0_def env0_def backend0_def lit_def)
  have t: "recordType props_snapshot = Snapshot" by (simp add: props_snapshot_def)
  have up: "uploadImage_result host0 f (uid user0) = Inr (lit ''https://img/1'')"
    by (simp add: host0_def)
  show ?thesis
    unfolding handleSubmit_snapshot_add [OF identity0 t assms(1) up a]
    by (simp add: call_def user0_def)
qed

lemma db_world0: "db world0 = backend0"
  by (simp add: world0_def)





lemma set_order_by: "set (order_by ord ds) = set ds"
proof (cases ord)
  case None
  then show ?thesis by simp
next
  case (Some fd)
  then show ?thesis by (cases fd; cases "snd fd") auto
qed

lemma set_start_after: "set (start_after cs ord ds) \<subseteq> set ds"
  by (induction cs ord ds rule: start_after.induct) auto

lemma set_limit_to: "set (limit_to cs ds) \<subseteq> set ds"
  by (induction cs ds rule: limit_to.induct) (auto dest: in_set_takeD)

lemma run_query_satisfies:
  assumes "q \<in> set (run_query cs ds)"
  shows "satisfies cs (doc_id q, doc_data q) \<and> (doc_id q, doc_data q) \<in> set ds"
proof -
  from assms obtain p where q: "q = \<lparr>doc_id = fst p, doc_data = snd p\<rparr>"
    and p: "p \<in> set (limit_to cs (start_after cs (ordering cs) (order_by (ordering cs) (filter (satisfies cs) ds))))"
    by (auto simp: run_query_def)
  from p have "p \<in> set (filter (satisfies cs) ds)"
    using set_limit_to set_start_after set_order_by by blast
  with q show ?thesis by simp
qed

lemma satisfies_year:
  assumes "satisfies (baseConstraints familyId options) p" "year_filter options = Some y" "y \<noteq> 0"
  shows "snd p ''year'' = Some (Num y)"
proof -
  from assms(2,3) have "Where ''year'' OpEq (Num y) \<in> set (snapshots_query_spec familyId options)"
    by (simp add: snapshots_query_spec_def)
  with assms(1) have "matches (Where ''year'' OpEq (Num y)) (snd p)"
    by (auto simp: satisfies_def baseConstraints_spec list_all_iff)
  then show ?thesis by (cases "snd p ''year''") simp_all
qed

lemma satisfies_month:
  assumes "satisfies (baseConstraints familyId options) p" "month_filter options = Some m" "m \<noteq> 0"
  shows "snd p ''month'' = Some (Num m)"
proof -
  from assms(2,3) have "Where ''month'' OpEq (Num m) \<in> set (snapshots_query_spec familyId options)"
    by (simp add: snapshots_query_spec_def)
  with assms(1) have "matches (Where ''month'' OpEq (Num m)) (snd p)"
    by (auto simp: satisfies_def baseConstraints_spec list_all_iff)
  then show ?thesis by (cases "snd p ''month''") simp_all
qed

text \<open>A document without \<open>year\<close> and \<open>month\<close> is not among the results of a query of
  \<open>getSnapshots\<close> that filters on a year or a month.\<close>

lemma unfiltered_never_matched:
  assumes "d ''year'' = None" "d ''month'' = None"
    and "(\<exists>y. year_filter options = Some y \<and> y \<noteq> 0) \<or> (\<exists>m. month_filter options = Some m \<and> m \<noteq> 0)"
    and "q \<in> set (run_query (baseConstraints familyId options) ds)"
  shows "doc_data q \<noteq> d"
proof
  assume "doc_data q = d"
  with run_query_satisfies [OF assms(4)] have s: "satisfies (baseConstraints familyId options) (doc_id q, d)"
    by simp
  from assms(3) show False
  proof
    assume "\<exists>y. year_filter options = Some y \<and> y \<noteq> 0"
    then obtain y where "year_filter options = Some y" "y \<noteq> 0" by blast
    from satisfies_year [OF s this] assms(1) show False by simp
  next
    assume "\<exists>m. month_filter options = Some m \<and> m \<noteq> 0"
    then obtain m where "month_filter options = Some m" "m \<noteq> 0" by blast
    from satisfies_month [OF s this] assms(2) show False by simp
  qed
qed

lemma dataToSave_no_timestamp:
  assumes "rd ''timestamp'' = None"
  shows "dataToSave e rd p ''timestamp'' = Some ServerTimestamp"
    and "dataToSave e rd p ''year'' = rd ''year''"
    and "dataToSave e rd p ''month'' = rd ''month''"
  using assms by (simp_all add: dataToSave_def dataToSave0_def Let_def)

lemma db_failure0: "db_failure env0 n c = None"
  by (simp add: env0_def)




text \<open>On timestamps the order of values is the order in time.\<close>

lemma order_key_timestamps:
  "order_key (TimestampV s) \<le> order_key (TimestampV t) \<longleftrightarrow>
     seconds s < seconds t \<or> (seconds s = seconds t \<and> nanoseconds s \<le> nanoseconds t)"
  by (auto simp: less_eq_prod_def)

section \<open>The claims\<close>

subsection \<open>C9: babyId and creatorName are always overwritten\<close>

lemma addRecord9:
  "addRecord env0 recordData9 (Some profile0) backend0 =
     (Inr (lit ''doc0''),
      \<lparr>docs = [(lit ''doc0'', resolve (Timestamp 1700000000 0) (dataToSave env0 recordData9 profile0))],
       db_log = [AddDoc ''records'' (dataToSave env0 recordData9 profile0)]\<rparr>)"
  by (simp add: addRecord_ok recordData9_def env0_def backend0_def lit_def)

text \<open>
  Claim C9. Every document created by \<open>addRecord\<close> has its \<open>babyId\<close> field equal to the
  constant \<open>'baby_01'\<close> and its \<open>creatorName\<close> field equal to \<open>userProfile.displayName\<close>,
  whatever \<open>recordData\<close> holds for these two fields: when \<open>addRecord\<close> returns a
  document reference, the collection has grown by exactly one document, stored under that
  reference, with these two values.
\<close>

theorem addRecord_babyId_creatorName:
  assumes "addRecord e recordData profile b = (Inr docRef, b')"
  shows "\<exists>p d. profile = Some p \<and> docs b' = docs b @ [(docRef, d)]
           \<and> d ''babyId'' = Some (Str (lit ''baby_01''))
           \<and> d ''creatorName'' = Some (nullable (displayName p))"
proof -
  from addRecord_Inr [OF assms] obtain p where
    p: "profile = Some p"
    and d: "docs b' = docs b @ [(docRef, resolve (server_time e (length (db_log b))) (dataToSave e recordData p))]"
    by blast
  let ?d = "resolve (server_time e (length (db_log b))) (dataToSave e recordData p)"
  have "?d ''babyId'' = Some (Str (lit ''baby_01''))"
    by (simp add: resolve_def dataToSave_babyId)
  moreover have "?d ''creatorName'' = Some (nullable (displayName p))"
    by (cases "displayName p") (simp_all add: resolve_def dataToSave_creatorName)
  ultimately show ?thesis using p d by blast
qed

theorem addRecord_babyId_creatorName_witness:
  "recordData9 ''babyId'' = Some (Str (lit ''baby_77'')) \<and>
   recordData9 ''creatorName'' = Some (Str (lit ''Eve'')) \<and>
   (\<exists>d. docs (snd (addRecord env0 recordData9 (Some profile0) backend0)) = [(lit ''doc0'', d)]
      \<and> d ''babyId'' = Some (Str (lit ''baby_01''))
      \<and> d ''creatorName'' = Some (Str (lit ''Mia'')))"
proof -
  have h: "addRecord env0 recordData9 (Some profile0) backend0 =
             (Inr (lit ''doc0''), snd (addRecord env0 recordData9 (Some profile0) backend0))"
    by (simp add: addRecord9)
  from addRecord_babyId_creatorName [OF h] show ?thesis
    by (auto simp: profile0_def recordData9_def backend0_def)
qed

subsection \<open>C2: year and month of a snapshot\<close>





subsection \<open>C4: validation before any database call\<close>

text \<open>
  Claim C4, as stated, fails where \<open>userProfile\<close> is null and an identifier is missing as
  well: the identifiers are checked first, so the message is the one about the identifiers.
\<close>

theorem addRecord_null_profile_counterexample:
  "fst (addRecord env0 Map.empty None backend0) =
     Inl (Error (lit ''Family ID and Creator ID are required.'')) \<and>
   fst (addRecord env0 Map.empty None backend0) \<noteq>
     Inl (Error (lit ''User profile is not available.''))"
  by (simp add: addRecord_def)

text \<open>
  Claim C4, amended. \<open>addRecord\<close> throws \<open>'Family ID and Creator ID are required.'\<close>
  whenever \<open>recordData.familyId\<close> or \<open>recordData.creatorId\<close> is missing or empty, and
  throws \<open>'User profile is not available.'\<close> whenever both identifiers are present and
  \<open>userProfile\<close> is null; \<open>updateRecord\<close> and \<open>deleteRecord\<close> throw their
  \<open>'Record ID is required ...'\<close> messages whenever \<open>recordId\<close> is empty. In each case the
  backend is returned as it was: no call has been issued and the stored data is unchanged.
\<close>

theorem crud_validation:
  "(\<not> truthy (recordData ''familyId'') \<or> \<not> truthy (recordData ''creatorId'') \<longrightarrow>
      addRecord e recordData profile b =
        (Inl (Error (lit ''Family ID and Creator ID are required.'')), b)) \<and>
   (truthy (recordData ''familyId'') \<and> truthy (recordData ''creatorId'') \<and> profile = None \<longrightarrow>
      addRecord e recordData profile b = (Inl (Error (lit ''User profile is not available.'')), b)) \<and>
   (recordId = [] \<longrightarrow>
      updateRecord e recordId updatedData b =
        (Inl (Error (lit ''Record ID is required for updating.'')), b) \<and>
      deleteRecord e recordId b =
        (Inl (Error (lit ''Record ID is required for deletion.'')), b))"
  by (simp add: addRecord_def updateRecord_def deleteRecord_def)

theorem crud_validation_witness:
  "addRecord env0 (recordData9(''creatorId'' \<mapsto> Str [])) (Some profile0) backend0 =
     (Inl (Error (lit ''Family ID and Creator ID are required.'')), backend0) \<and>
   addRecord env0 recordData9 None backend0 =
     (Inl (Error (lit ''User profile is not available.'')), backend0) \<and>
   updateRecord env0 [] recordData9 backend0 =
     (Inl (Error (lit ''Record ID is required for updating.'')), backend0) \<and>
   deleteRecord env0 [] backend0 =
     (Inl (Error (lit ''Record ID is required for deletion.'')), backend0)"
  using crud_validation [where recordData = "recordData9(''creatorId'' \<mapsto> Str [])" and e = env0
      and profile = "Some profile0" and b = backend0 and recordId = "[]" and updatedData = recordData9]
    crud_validation [where recordData = recordData9 and e = env0
      and profile = None and b = backend0 and recordId = "[]" and updatedData = recordData9]
  by (simp add: recordData9_def)

subsection \<open>C1: the query of getSnapshots\<close>









subsection \<open>C5: the measurement records\<close>

lemma filter5:
  "filter (\<lambda>p. is_measurement_of (lit ''fam1'') (lit ''baby_01'') p \<and> has_timestamp p)
     (docs backend5) =
   [(lit ''m1'', (measurement5 200)(''id'' \<mapsto> Str (lit ''zzz''))), (lit ''m3'', measurement5 100)]"
  by (simp add: backend5_def is_measurement_of_def has_timestamp_def measurement5_def)

lemma sort5:
  "sort_key (sort_field ''timestamp'')
     [(lit ''m1'', (measurement5 200)(''id'' \<mapsto> Str (lit ''zzz''))), (lit ''m3'', measurement5 100)] =
   [(lit ''m3'', measurement5 100), (lit ''m1'', (measurement5 200)(''id'' \<mapsto> Str (lit ''zzz'')))]"
  by (simp add: sort_field_def measurement5_def)

lemma getMeasurementRecords5:
  "getMeasurementRecords env0 (lit ''fam1'') (lit ''baby_01'') backend5 =
     (Inr [with_id \<lparr>doc_id = lit ''m3'', doc_data = measurement5 100\<rparr>,
           with_id \<lparr>doc_id = lit ''m1'', doc_data = (measurement5 200)(''id'' \<mapsto> Str (lit ''zzz''))\<rparr>],
      backend5\<lparr>db_log := [GetDocs ''records'' (measurement_query (lit ''fam1'') (lit ''baby_01''))]\<rparr>)"
proof -
  have "run_query (measurement_query (lit ''fam1'') (lit ''baby_01'')) (docs backend5) =
          [\<lparr>doc_id = lit ''m3'', doc_data = measurement5 100\<rparr>,
           \<lparr>doc_id = lit ''m1'', doc_data = (measurement5 200)(''id'' \<mapsto> Str (lit ''zzz''))\<rparr>]"
    unfolding run_measurement_query filter5 sort5 by simp
  moreover have "db_log backend5 = []" by (simp add: backend5_def)
  ultimately show ?thesis
    by (simp add: getMeasurementRecords_def getDocs_cases env0_def
        measurement_query_def [symmetric])
qed

text \<open>
  Claim C5, as stated, fails on a collection with three measurement records of the family and
  baby, one of which (\<open>m2\<close>) has no \<open>timestamp\<close> field and another (\<open>m1\<close>) a data field
  named \<open>id\<close>: ordering by \<open>timestamp\<close> leaves out the record without that field, and
  \<open>m1\<close> is returned with the \<open>id\<close> of its data, not with its document id.
\<close>

theorem getMeasurementRecords_counterexample:
  "is_measurement_of (lit ''fam1'') (lit ''baby_01'') (docs backend5 ! 0) \<and>
   is_measurement_of (lit ''fam1'') (lit ''baby_01'') (docs backend5 ! 1) \<and>
   is_measurement_of (lit ''fam1'') (lit ''baby_01'') (docs backend5 ! 2) \<and>
   fst (docs backend5 ! 0) = lit ''m1'' \<and>
   \<not> isl (fst (getMeasurementRecords env0 (lit ''fam1'') (lit ''baby_01'') backend5)) \<and>
   length (projr (fst (getMeasurementRecords env0 (lit ''fam1'') (lit ''baby_01'') backend5))) = 2 \<and>
   (projr (fst (getMeasurementRecords env0 (lit ''fam1'') (lit ''baby_01'') backend5)) ! 0) ''id''
     = Some (Str (lit ''m3'')) \<and>
   (projr (fst (getMeasurementRecords env0 (lit ''fam1'') (lit ''baby_01'') backend5)) ! 1) ''id''
     = Some (Str (lit ''zzz''))"
  by (simp add: getMeasurementRecords5 with_id_apply)
     (simp add: backend5_def is_measurement_of_def measurement5_def)

text \<open>
  Claim C5, amended. When \<open>getMeasurementRecords(familyId, babyId)\<close> returns, it returns
  exactly the records that have a \<open>timestamp\<close> field and whose \<open>familyId\<close> and
  \<open>babyId\<close> equal the arguments and whose \<open>type\<close> is \<open>'measurement'\<close> (as many times
  as they are stored), sorted by their \<open>timestamp\<close> in ascending order (for timestamps
  \<open>order_key\<close> is the order in time), each as its data
  spread over its document id (\<open>id\<close> is the document id unless the data has an \<open>id\<close>
  field of its own); the stored data is unchanged.
\<close>

theorem getMeasurementRecords_result:
  assumes "getMeasurementRecords e familyId babyId b = (Inr rs, b')"
  shows "\<exists>fetched. 
           mset fetched =
             mset (filter (\<lambda>p. is_measurement_of familyId babyId p \<and> has_timestamp p) (docs b)) \<and>
           sorted (map (\<lambda>p. order_key (the (snd p ''timestamp''))) fetched) \<and>
           length rs = length fetched \<and>
           (\<forall>i < length fetched. \<forall>k.
              (rs ! i) k =
                (case snd (fetched ! i) k of
                   Some v \<Rightarrow> Some v
                 | None \<Rightarrow> if k = ''id'' then Some (Str (fst (fetched ! i))) else None)) \<and>
           docs b' = docs b"
proof -
  let ?f = "sort_key (sort_field ''timestamp'')
          (filter (\<lambda>p. is_measurement_of familyId babyId p \<and> has_timestamp p) (docs b))"
  from assms have rs: "rs = map with_id (run_query (measurement_query familyId babyId) (docs b))"
    and b': "docs b' = docs b"
    by (auto simp: getMeasurementRecords_def getDocs_cases measurement_query_def split: option.splits)
  have "mset ?f = mset (filter (\<lambda>p. is_measurement_of familyId babyId p \<and> has_timestamp p) (docs b))"
    by simp
  moreover have "sorted (map (\<lambda>p. order_key (the (snd p ''timestamp''))) ?f)"
    by (rule sorted_by_field)
  moreover have "length rs = length ?f"
    by (simp add: rs run_measurement_query)
  moreover have "\<forall>i < length ?f. \<forall>k.
              (rs ! i) k =
                (case snd (?f ! i) k of
                   Some v \<Rightarrow> Some v
                 | None \<Rightarrow> if k = ''id'' then Some (Str (fst (?f ! i))) else None)"
    by (auto simp: rs run_measurement_query with_id_apply split: option.splits)
  ultimately show ?thesis using b' by blast
qed


theorem getMeasurementRecords_result_witness:
  "getMeasurementRecords env0 (lit ''fam1'') (lit ''baby_01'') backend5 =
     (Inr [with_id \<lparr>doc_id = lit ''m3'', doc_data = measurement5 100\<rparr>,
           with_id \<lparr>doc_id = lit ''m1'', doc_data = (measurement5 200)(''id'' \<mapsto> Str (lit ''zzz''))\<rparr>],
      backend5\<lparr>db_log := [GetDocs ''records'' (measurement_query (lit ''fam1'') (lit ''baby_01''))]\<rparr>) \<and>
   (\<exists>fetched.
      mset fetched =
        mset [(lit ''m1'', (measurement5 200)(''id'' \<mapsto> Str (lit ''zzz''))), (lit ''m3'', measurement5 100)] \<and>
      sorted (map (\<lambda>p. order_key (the (snd p ''timestamp''))) fetched) \<and>
      length fetched = 2)"
  using getMeasurementRecords_result [OF getMeasurementRecords5]
  by (auto simp: getMeasurementRecords5 filter5)

subsection \<open>C7: the modal closes exactly when the operations succeed\<close>





subsection \<open>C3: the tags of a snapshot\<close>

lemma tagsArray3: "tagsArray tags3 = [lit ''first'', lit ''park'']"
  by (simp add: tagsArray_def split_def tags3_def lit_def isSeparator_def isWhiteSpace_def)

lemma blank_separators: "list_all isSeparator tags_blank"
  by (simp add: tags_blank_def isSeparator_def isWhiteSpace_def)

text \<open>
  Claim C3. When a snapshot record is submitted from the modal and stored, its \<open>tags\<close>
  field is the array \<open>tagsArray\<close> of the tags input: the input split on the maximal runs
  of ASCII commas, fullwidth commas and white space, without the empty pieces. These are
  the maximal separator-free runs of the input (\<open>tokens\<close>), each non-empty and free of
  separators; an input of separators only gives the empty array.
\<close>

theorem snapshot_tags_stored:
  assumes "recordType pr = Snapshot"
    and "handleSubmit e h pr a (st, w) = (st', w')"
    and "docs (db w') \<noteq> docs (db w)"
  shows "\<exists>docRef d. docs (db w') = docs (db w) @ [(docRef, d)] \<and>
           d ''tags'' = Some (Arr (tagsArray (tags st))) \<and>
           tagsArray (tags st) = tokens (tags st) \<and>
           (\<forall>t \<in> set (tagsArray (tags st)). t \<noteq> [] \<and> (\<forall>c \<in> set t. \<not> isSeparator c)) \<and>
           (list_all isSeparator (tags st) \<longrightarrow> tagsArray (tags st) = [])"
proof -
  from handleSubmit_snapshot_stored [OF assms] obtain u p familyId url docRef where
    d: "docs (db w') = docs (db w) @
             [(docRef, resolve (server_time e (length (db_log (db w))))
                         (dataToSave e (snapshotRecord familyId u st url) p))]"
    by blast
  let ?d = "resolve (server_time e (length (db_log (db w))))
                         (dataToSave e (snapshotRecord familyId u st url) p)"
  have "?d ''tags'' = Some (Arr (tagsArray (tags st)))"
    by (simp add: resolve_def dataToSave_field snapshotRecord_def)
  with d tagsArray_props [of "tags st"] show ?thesis
    by blast
qed


theorem snapshot_tags_stored_witness:
  "(\<exists>docRef d.
      docs (db (snd (handleSubmit env0 host0 props_snapshot auth0
        (state0\<lparr>tags := tags3, imageFile := Some compressed0\<rparr>, world0)))) = [(docRef, d)] \<and>
      d ''tags'' = Some (Arr [lit ''first'', lit ''park''])) \<and>
   (\<exists>docRef d.
      docs (db (snd (handleSubmit env0 host0 props_snapshot auth0
        (state0\<lparr>tags := tags_blank, imageFile := Some compressed0\<rparr>, world0)))) = [(docRef, d)] \<and>
      d ''tags'' = Some (Arr []))"
proof -
  let ?s1 = "state0\<lparr>tags := tags3, imageFile := Some compressed0\<rparr>"
  let ?s2 = "state0\<lparr>tags := tags_blank, imageFile := Some compressed0\<rparr>"
  have t: "recordType props_snapshot = Snapshot" by (simp add: props_snapshot_def)
  have c1: "docs (db (snd (handleSubmit env0 host0 props_snapshot auth0 (?s1, world0)))) \<noteq> docs (db world0)"
    by (simp add: handleSubmit0 db_world0) (simp add: world0_def backend0_def)
  have c2: "docs (db (snd (handleSubmit env0 host0 props_snapshot auth0 (?s2, world0)))) \<noteq> docs (db world0)"
    by (simp add: handleSubmit0 db_world0) (simp add: world0_def backend0_def)
  from snapshot_tags_stored [OF t surjective_pairing c1] snapshot_tags_stored [OF t surjective_pairing c2]
  show ?thesis
    using blank_separators
    by (simp add: tagsArray3 handleSubmit0 db_world0) (auto simp: world0_def backend0_def)
qed

subsection \<open>C6: the shortcuts of the floating action button\<close>

text \<open>
  Claim C6, as stated, fails: the button group has no shortcut for solid food and none for
  measurement.
\<close>

theorem fab_missing_shortcuts_counterexample:
  "SubButton SolidFood \<notin> set buttons \<and> SubButton Measurement \<notin> set buttons"
  by (simp add: buttons_def)

text \<open>
  Claim C6, amended. The floating action button exposes a shortcut for exactly four record
  types: photo snapshot, sleep, diaper and feeding. Clicking any shortcut invokes
  \<open>onAddRecord\<close> with exactly that record type and closes the menu (\<open>isOpen\<close> becomes
  false).
\<close>

theorem fab_shortcuts:
  "(SubButton t \<in> set buttons \<longleftrightarrow> t = Snapshot \<or> t = Sleep \<or> t = Diaper \<or> t = Feeding) \<and>
   (SubButton t \<in> set buttons \<longrightarrow>
      onAddRecord_calls (onClick (SubButton t) s) = onAddRecord_calls s @ [t] \<and>
      isOpen (onClick (SubButton t) s) = False)"
  by (auto simp: buttons_def handleSubButtonClick_def Let_def)

theorem fab_shortcuts_witness:
  "SubButton Snapshot \<in> set buttons \<and>
   onAddRecord_calls (onClick (SubButton Snapshot) \<lparr>isOpen = True, onAddRecord_calls = [Feeding]\<rparr>)
     = [Feeding, Snapshot] \<and>
   isOpen (onClick (SubButton Snapshot) \<lparr>isOpen = True, onAddRecord_calls = [Feeding]\<rparr>) = False"
  using fab_shortcuts [of Snapshot "\<lparr>isOpen = True, onAddRecord_calls = [Feeding]\<rparr>"]
  by simp

subsection \<open>C8: choosing, compressing and uploading the image\<close>





subsection \<open>C10: snapshots stamped by the server\<close>

lemma addRecord10:
  "addRecord env0 recordData10 (Some profile0) backend0 =
     (Inr (lit ''doc0''),
      \<lparr>docs = [(lit ''doc0'', resolve (Timestamp 1700000000 0) (dataToSave env0 recordData10 profile0))],
       db_log = [AddDoc ''records'' (dataToSave env0 recordData10 profile0)]\<rparr>)"
  by (simp add: addRecord_ok recordData10_def recordData_plain_def env0_def backend0_def lit_def)

lemma stored10:
  "resolve (Timestamp 1700000000 0) (dataToSave env0 recordData10 profile0) =
     recordData10(''babyId'' \<mapsto> Str (lit ''baby_01''), ''creatorName'' \<mapsto> Str (lit ''Mia''),
                  ''timestamp'' \<mapsto> TimestampV (Timestamp 1700000000 0))"
  by (rule ext)
     (simp add: resolve_def dataToSave_def dataToSave0_def recordData10_def recordData_plain_def
        profile0_def Let_def)

lemma query10:
  "baseConstraints (lit ''fam1'') options10 =
     [Where ''familyId'' OpEq (Str (lit ''fam1'')), Where ''type'' OpEq (Str (lit ''snapshot'')),
      Where ''year'' OpEq (Num 2024), OrderBy ''timestamp'' Desc, Limit 20]"
  by (simp add: baseConstraints_def options10_def push_year_def push_month_def push_tag_def)

lemma run10:
  "run_query (baseConstraints (lit ''fam1'') options10)
     [(lit ''doc0'', resolve (Timestamp 1700000000 0) (dataToSave env0 recordData10 profile0))] =
   [\<lparr>doc_id = lit ''doc0'',
     doc_data = resolve (Timestamp 1700000000 0) (dataToSave env0 recordData10 profile0)\<rparr>]"
  by (simp add: query10 run_query_def satisfies_def stored10)
     (simp add: recordData10_def recordData_plain_def)

text \<open>
  Claim C10, as stated, fails for a caller that passes no timestamp but a \<open>year\<close> of its
  own: the spread of \<open>recordData\<close> writes that \<open>year\<close>, and a \<open>getSnapshots\<close> call
  that filters on it fetches the snapshot.
\<close>

theorem passed_year_counterexample:
  "recordData10 ''type'' = Some (Str (lit ''snapshot'')) \<and>
   recordData10 ''timestamp'' = None \<and>
   \<not> isl (fst (addRecord env0 recordData10 (Some profile0) backend0)) \<and>
   snd (docs (snd (addRecord env0 recordData10 (Some profile0) backend0)) ! 0) ''year'' = Some (Num 2024) \<and>
   \<not> isl (fst (getSnapshots env0 (lit ''fam1'') options10
              (snd (addRecord env0 recordData10 (Some profile0) backend0)))) \<and>
   map_option doc_id (lastVisible (projr (fst (getSnapshots env0 (lit ''fam1'') options10
              (snd (addRecord env0 recordData10 (Some profile0) backend0)))))) = Some (lit ''doc0'')"
proof -
  have "getSnapshots env0 (lit ''fam1'') options10
          (snd (addRecord env0 recordData10 (Some profile0) backend0)) =
        (Inr \<lparr>snapshots = [with_id \<lparr>doc_id = lit ''doc0'',
                 doc_data = resolve (Timestamp 1700000000 0) (dataToSave env0 recordData10 profile0)\<rparr>],
               lastVisible = Some \<lparr>doc_id = lit ''doc0'',
                 doc_data = resolve (Timestamp 1700000000 0) (dataToSave env0 recordData10 profile0)\<rparr>\<rparr>,
         \<lparr>docs = [(lit ''doc0'', resolve (Timestamp 1700000000 0) (dataToSave env0 recordData10 profile0))],
          db_log = [AddDoc ''records'' (dataToSave env0 recordData10 profile0),
                    GetDocs ''records'' (baseConstraints (lit ''fam1'') options10)]\<rparr>)"
    by (simp add: addRecord10 getSnapshots_def getDocs_cases run10 db_failure0)
  then show ?thesis
    by (simp add: addRecord10 stored10) (simp add: recordData10_def recordData_plain_def)
qed

text \<open>
  Claim C10, amended. For every call to \<open>addRecord\<close> with type \<open>'snapshot'\<close> and no
  timestamp in \<open>recordData\<close>, the timestamp of the document sent is the server-timestamp
  sentinel, which is not a \<open>Timestamp\<close> instance, so \<open>addRecord\<close> adds no \<open>year\<close> or
  \<open>month\<close>: the stored document has these fields only where \<open>recordData\<close> itself
  supplied them. The record modal supplies neither, so a snapshot it stores has no \<open>year\<close>
  and no \<open>month\<close> and is never among the documents fetched by a \<open>getSnapshots\<close> query
  that filters on a nonzero year or month.
\<close>

theorem serverTimestamp_snapshot:
  "(recordData ''type'' = Some (Str (lit ''snapshot'')) \<and> recordData ''timestamp'' = None \<and>
    addRecord e recordData profile b = (Inr docRef, b') \<longrightarrow>
      (\<exists>sent d.
         db_log b' = db_log b @ [AddDoc ''records'' sent] \<and>
         sent ''timestamp'' = Some ServerTimestamp \<and> \<not> instanceofTimestamp ServerTimestamp \<and>
         sent ''year'' = recordData ''year'' \<and> sent ''month'' = recordData ''month'' \<and>
         docs b' = docs b @ [(docRef, d)] \<and>
         (d ''year'' = None \<longleftrightarrow> recordData ''year'' = None) \<and>
         (d ''month'' = None \<longleftrightarrow> recordData ''month'' = None))) \<and>
   (recordType pr = Snapshot \<and> handleSubmit e h pr a (st, w) = (st', w') \<and>
    docs (db w') \<noteq> docs (db w) \<longrightarrow>
      (\<exists>docRef d.
         docs (db w') = docs (db w) @ [(docRef, d)] \<and>
         d ''year'' = None \<and> d ''month'' = None \<and>
         (\<forall>familyId options ds.
            (\<exists>y. year_filter options = Some y \<and> y \<noteq> 0) \<or>
            (\<exists>m. month_filter options = Some m \<and> m \<noteq> 0) \<longrightarrow>
            (\<forall>q \<in> set (run_query (baseConstraints familyId options) ds). doc_data q \<noteq> d))))"
proof (intro conjI impI)
  assume a: "recordData ''type'' = Some (Str (lit ''snapshot'')) \<and> recordData ''timestamp'' = None \<and>
    addRecord e recordData profile b = (Inr docRef, b')"
  then have ts: "recordData ''timestamp'' = None" and run: "addRecord e recordData profile b = (Inr docRef, b')"
    by simp_all
  from addRecord_Inr [OF run] obtain p where
    l: "db_log b' = db_log b @ [AddDoc ''records'' (dataToSave e recordData p)]"
    and d: "docs b' = docs b @ [(docRef, resolve (server_time e (length (db_log b))) (dataToSave e recordData p))]"
    by blast
  let ?s = "dataToSave e recordData p"
  let ?d = "resolve (server_time e (length (db_log b))) ?s"
  have "?s ''timestamp'' = Some ServerTimestamp" "?s ''year'' = recordData ''year''"
    "?s ''month'' = recordData ''month''"
    "(?d ''year'' = None \<longleftrightarrow> recordData ''year'' = None)"
    "(?d ''month'' = None \<longleftrightarrow> recordData ''month'' = None)"
    using ts by (simp_all add: dataToSave_no_timestamp resolve_dom)
  with l d show "\<exists>sent d.
         db_log b' = db_log b @ [AddDoc ''records'' sent] \<and>
         sent ''timestamp'' = Some ServerTimestamp \<and> \<not> instanceofTimestamp ServerTimestamp \<and>
         sent ''year'' = recordData ''year'' \<and> sent ''month'' = recordData ''month'' \<and>
         docs b' = docs b @ [(docRef, d)] \<and>
         (d ''year'' = None \<longleftrightarrow> recordData ''year'' = None) \<and>
         (d ''month'' = None \<longleftrightarrow> recordData ''month'' = None)"
    by (intro exI [of _ ?s] exI [of _ ?d]) simp
next
  assume a: "recordType pr = Snapshot \<and> handleSubmit e h pr a (st, w) = (st', w') \<and>
    docs (db w') \<noteq> docs (db w)"
  then have "recordType pr = Snapshot" "handleSubmit e h pr a (st, w) = (st', w')"
    "docs (db w') \<noteq> docs (db w)" by simp_all
  from handleSubmit_snapshot_stored [OF this] obtain u p familyId url docRef where
    d: "docs (db w') = docs (db w) @
             [(docRef, resolve (server_time e (length (db_log (db w))))
                         (dataToSave e (snapshotRecord familyId u st url) p))]"
    by blast
  let ?rd = "snapshotRecord familyId u st url"
  let ?d = "resolve (server_time e (length (db_log (db w)))) (dataToSave e ?rd p)"
  have ts: "?rd ''timestamp'' = None" and "?rd ''year'' = None" and "?rd ''month'' = None"
    by (simp_all add: snapshotRecord_def)
  then have y: "?d ''year'' = None" and m: "?d ''month'' = None"
    by (simp_all add: resolve_dom dataToSave_no_timestamp)
  have "\<forall>familyId options ds.
            (\<exists>y. year_filter options = Some y \<and> y \<noteq> 0) \<or>
            (\<exists>m. month_filter options = Some m \<and> m \<noteq> 0) \<longrightarrow>
            (\<forall>q \<in> set (run_query (baseConstraints familyId options) ds). doc_data q \<noteq> ?d)"
    using unfiltered_never_matched [OF y m] by blast
  with d y m show "\<exists>docRef d.
         docs (db w') = docs (db w) @ [(docRef, d)] \<and>
         d ''year'' = None \<and> d ''month'' = None \<and>
         (\<forall>familyId options ds.
            (\<exists>y. year_filter options = Some y \<and> y \<noteq> 0) \<or>
            (\<exists>m. month_filter options = Some m \<and> m \<noteq> 0) \<longrightarrow>
            (\<forall>q \<in> set (run_query (baseConstraints familyId options) ds). doc_data q \<noteq> d))"
    by (intro exI [of _ docRef] exI [of _ ?d]) simp
qed


theorem serverTimestamp_snapshot_witness:
  "(\<exists>sent d.
      db_log (snd (addRecord env0 recordData_plain (Some profile0) backend0)) = [AddDoc ''records'' sent] \<and>
      sent ''timestamp'' = Some ServerTimestamp \<and>
      docs (snd (addRecord env0 recordData_plain (Some profile0) backend0)) = [(lit ''doc0'', d)] \<and>
      d ''year'' = None \<and> d ''month'' = None) \<and>
   run_query (baseConstraints (lit ''fam1'') options10)
     (docs (db (snd (handleSubmit env0 host0 props_snapshot auth0
        (state0\<lparr>imageFile := Some compressed0\<rparr>, world0))))) = []"
proof -
  let ?st = "state0\<lparr>imageFile := Some compressed0\<rparr>"
  let ?w = "snd (handleSubmit env0 host0 props_snapshot auth0 (?st, world0))"
  let ?rs = "run_query (baseConstraints (lit ''fam1'') options10) (docs (db ?w))"
  have plain: "recordData_plain ''type'' = Some (Str (lit ''snapshot''))"
    "recordData_plain ''timestamp'' = None" "recordData_plain ''year'' = None"
    "recordData_plain ''month'' = None"
    by (simp_all add: recordData_plain_def)
  have run: "addRecord env0 recordData_plain (Some profile0) backend0 =
     (Inr (lit ''doc0''), snd (addRecord env0 recordData_plain (Some profile0) backend0))"
    by (simp add: addRecord_ok recordData_plain_def env0_def backend0_def lit_def)
  have t: "recordType props_snapshot = Snapshot" by (simp add: props_snapshot_def)
  have ch: "docs (db ?w) \<noteq> docs (db world0)"
    by (simp add: handleSubmit0 db_world0) (simp add: world0_def backend0_def)
  have yf: "year_filter options10 = Some 2024" by (simp add: year_filter_def options10_def)
  note inst = serverTimestamp_snapshot [where recordData = recordData_plain and e = env0
      and profile = "Some profile0" and b = backend0 and docRef = "lit ''doc0''"
      and b' = "snd (addRecord env0 recordData_plain (Some profile0) backend0)"
      and pr = props_snapshot and h = host0 and a = auth0 and st = ?st and w = world0
      and st' = "fst (handleSubmit env0 host0 props_snapshot auth0 (?st, world0))" and w' = ?w]
  have prem1: "recordData_plain ''type'' = Some (Str (lit ''snapshot'')) \<and>
      recordData_plain ''timestamp'' = None \<and>
      addRecord env0 recordData_plain (Some profile0) backend0 =
        (Inr (lit ''doc0''), snd (addRecord env0 recordData_plain (Some profile0) backend0))"
    using plain run by simp
  have prem2: "recordType props_snapshot = Snapshot \<and>
      handleSubmit env0 host0 props_snapshot auth0 (?st, world0) =
        (fst (handleSubmit env0 host0 props_snapshot auth0 (?st, world0)), ?w) \<and>
      docs (db ?w) \<noteq> docs (db world0)"
    using t ch by simp
  from inst [THEN conjunct1, THEN mp, OF prem1] plain have 1: "\<exists>sent d.
      db_log (snd (addRecord env0 recordData_plain (Some profile0) backend0)) = [AddDoc ''records'' sent] \<and>
      sent ''timestamp'' = Some ServerTimestamp \<and>
      docs (snd (addRecord env0 recordData_plain (Some profile0) backend0)) = [(lit ''doc0'', d)] \<and>
      d ''year'' = None \<and> d ''month'' = None"
    by (auto simp: backend0_def)
  from inst [THEN conjunct2, THEN mp, OF prem2] obtain docRef d
    where d: "docs (db ?w) = docs (db world0) @ [(docRef, d)]"
      and all: "\<forall>familyId options ds.
            (\<exists>y. year_filter options = Some y \<and> y \<noteq> 0) \<or>
            (\<exists>m. month_filter options = Some m \<and> m \<noteq> 0) \<longrightarrow>
            (\<forall>q \<in> set (run_query (baseConstraints familyId options) ds). doc_data q \<noteq> d)"
    by blast
  have "(\<exists>y. year_filter options10 = Some y \<and> y \<noteq> 0) \<or>
        (\<exists>m. month_filter options10 = Some m \<and> m \<noteq> 0)"
    using yf by simp
  with all have never: "\<forall>q \<in> set ?rs. doc_data q \<noteq> d"
    by blast
  have "?rs = []"
  proof (rule ccontr)
    assume "?rs \<noteq> []"
    then obtain q where q: "q \<in> set ?rs" by (cases ?rs) auto
    from run_query_satisfies [OF q] d have "doc_data q = d"
      by (simp add: world0_def backend0_def)
    with never q show False by blast
  qed
  with 1 show ?thesis by simp
qed

end
